theory Spec2Isabelle
  imports Complex_Main "HOL-Library.Log_Nat"
begin

section \<open>Conventions of the embedding\<close>

text \<open>
  The program is \<^verbatim>\<open>neural_style.py\<close>. Python and TensorFlow floats are embedded as
  \<^typ>\<open>real\<close>: arithmetic is exact, so rounding, overflow, \<^verbatim>\<open>inf\<close> and \<^verbatim>\<open>nan\<close> are
  outside the model. The exception are the float32 image arrays of \<open>preprocess\<close> and
  \<open>postprocess\<close>, whose stores are rounded, since the conversion to \<^verbatim>\<open>uint8\<close> makes
  the rounding visible. Python's unbounded integers are \<^typ>\<open>int\<close> (or \<^typ>\<open>nat\<close> for
  tensor dimensions, which are never negative). Every exception the modelled code can
  raise is a value of \<open>py_error\<close>, returned as \<open>Inl\<close>.
\<close>

datatype py_error =
    ZeroDivisionError
  | KeyError string
  | ShapeError
  | ArgumentError string
  | TypeError
  | IndexError
  | AttributeError string
  | SystemExit int
  | ValueError

section \<open>Weight normalisation\<close>

text \<open>
  \<^verbatim>\<open>
  def normalize(weights):
    denom = sum(weights)
    if denom > 0.:
      return [float(i) / denom for i in weights]
    else: return [0.] * len(weights)
  \<close>
  The function is named \<open>normalize_weights\<close> here, \<open>normalize\<close> being a constant
  of the HOL library.
\<close>

definition normalize_weights :: "real list \<Rightarrow> real list" where
  "normalize_weights weights =
     (let denom = sum_list weights
      in if denom > 0 then map (\<lambda>i. i / denom) weights
         else replicate (length weights) 0)"

lemma sum_list_map_divide:
  "sum_list (map (\<lambda>i. i / c) ws) = sum_list ws / (c::real)"
  by (induction ws) (simp_all add: add_divide_distrib)

text \<open>
  Claim C2. For every weight vector, \<open>normalize_weights\<close> returns a vector of the same length;
  its entries sum to 1 when the input sum is positive, and it is the all-zero vector of
  that length when the input sum is at most 0.
\<close>

theorem normalize_sums_to_one:
  "length (normalize_weights ws) = length ws \<and>
   (sum_list ws > 0 \<longrightarrow> sum_list (normalize_weights ws) = 1) \<and>
   (sum_list ws \<le> 0 \<longrightarrow> normalize_weights ws = replicate (length ws) 0)"
  by (simp add: normalize_weights_def Let_def sum_list_map_divide)

theorem normalize_sums_to_one_witness:
  "length (normalize_weights [3, 7]) = length [3, 7 :: real] \<and>
   sum_list [3, 7 :: real] > 0 \<and> sum_list (normalize_weights [3, 7]) = 1 \<and>
   sum_list [-1, 1 :: real] \<le> 0 \<and> normalize_weights [-1, 1] = replicate (length [-1, 1 :: real]) 0"
  using normalize_sums_to_one [of "[3, 7]"] normalize_sums_to_one [of "[-1, 1]"]
  by simp

section \<open>Activation tensors and the per-layer losses\<close>

text \<open>
  An activation is a TensorFlow tensor of shape \<open>(1, h, w, d)\<close>: the record holds the
  three free dimensions and the elements in row-major order, so element \<open>(0, i, j, k)\<close>
  is at offset \<open>(i * w + j) * d + k\<close>. \<open>get_shape\<close> returns the static shape.

  \<^verbatim>\<open>
  def content_layer_loss(p, x):
    _, h, w, d = p.get_shape()
    M = h.value * w.value
    N = d.value
    K = 1. / (2. * N**0.5 * M**0.5)
    loss = K * tf.reduce_sum(tf.pow((x - p), 2))
    return loss
  \<close>
  The division \<^verbatim>\<open>1. / 0.0\<close> raises \<^verbatim>\<open>ZeroDivisionError\<close> in Python, which happens
  when \<open>d = 0\<close> or \<open>h * w = 0\<close>. The subtraction \<^verbatim>\<open>x - p\<close> is modelled for operands of
  equal shape, which is how the program calls it (both are the activation of one layer
  of one network); operands of different shapes are a \<open>ShapeError\<close> here, TensorFlow's
  broadcasting of size-1 dimensions is not modelled.
\<close>

record tensor =
  th :: nat
  tw :: nat
  td :: nat
  tdata :: "real list"

definition wf_tensor :: "tensor \<Rightarrow> bool" where
  "wf_tensor t \<longleftrightarrow> length (tdata t) = th t * tw t * td t"

definition get_shape :: "tensor \<Rightarrow> nat \<times> nat \<times> nat \<times> nat" where
  "get_shape t = (1, th t, tw t, td t)"

definition tensor_at :: "tensor \<Rightarrow> nat \<Rightarrow> nat \<Rightarrow> nat \<Rightarrow> real" where
  "tensor_at t i j k = tdata t ! ((i * tw t + j) * td t + k)"

definition tf_sub :: "tensor \<Rightarrow> tensor \<Rightarrow> py_error + tensor" where
  "tf_sub x p =
     (if get_shape x = get_shape p
      then Inr (x\<lparr>tdata := map2 (-) (tdata x) (tdata p)\<rparr>)
      else Inl ShapeError)"

definition tf_pow2 :: "tensor \<Rightarrow> tensor" where
  "tf_pow2 t = t\<lparr>tdata := map (\<lambda>v. v ^ 2) (tdata t)\<rparr>"

definition tf_reduce_sum :: "tensor \<Rightarrow> real" where
  "tf_reduce_sum t = sum_list (tdata t)"

definition content_layer_loss :: "tensor \<Rightarrow> tensor \<Rightarrow> py_error + real" where
  "content_layer_loss p x =
     (case get_shape p of (_, h, w, d) \<Rightarrow>
        let M = h * w; N = d
        in if 2 * sqrt (real N) * sqrt (real M) = 0 then Inl ZeroDivisionError
           else (let K = 1 / (2 * sqrt (real N) * sqrt (real M))
                 in (case tf_sub x p of
                       Inl e \<Rightarrow> Inl e
                     | Inr df \<Rightarrow> Inr (K * tf_reduce_sum (tf_pow2 df)))))"

lemma sum_list_sq_diff_nth:
  "length xs = length ys \<Longrightarrow>
   sum_list (map (\<lambda>v. v ^ 2) (map2 (-) xs ys)) = (\<Sum>n<length xs. (xs ! n - ys ! n) ^ 2)"
  for xs ys :: "real list"
  by (simp add: sum_list_sum_nth atLeast0LessThan)

lemma sum_group2:
  "(\<Sum>n<a * b. f n) = (\<Sum>m<a. \<Sum>k<b. f (m * b + k))" for f :: "nat \<Rightarrow> real"
proof -
  have "(\<Sum>m<a. \<Sum>k<b. f (m * b + k)) = (\<Sum>m<a. sum f {m * b ..< m * b + b})"
    by (simp add: sum.atLeastLessThan_shift_0 [of f] lessThan_atLeast0 comp_def)
  also have "\<dots> = sum f {..< a * b}"
    by (rule sum.nat_group)
  finally show ?thesis by simp
qed

lemma sum_group3:
  "(\<Sum>n<h * w * d. f n) = (\<Sum>i<h. \<Sum>j<w. \<Sum>k<d. f ((i * w + j) * d + k))"
  for f :: "nat \<Rightarrow> real"
  by (simp add: sum_group2)


lemma content_layer_loss_flat:
  assumes "wf_tensor p" "wf_tensor x" "get_shape p = (1, h, w, d)" "get_shape x = (1, h, w, d)"
    and "0 < h" "0 < w" "0 < d"
  shows "content_layer_loss p x =
     Inr (1 / (2 * sqrt (real d) * sqrt (real (h * w))) *
          (\<Sum>n<h * w * d. (tdata x ! n - tdata p ! n) ^ 2))"
proof -
  have dims: "th p = h" "tw p = w" "td p = d" "th x = h" "tw x = w" "td x = d"
    using assms(3,4) by (simp_all add: get_shape_def)
  have len: "length (tdata x) = h * w * d" "length (tdata p) = h * w * d"
    using assms(1,2) dims by (simp_all add: wf_tensor_def)
  have nz: "2 * sqrt (real d) * sqrt (real (h * w)) \<noteq> 0"
    using assms(5-7) by simp
  have sub: "tf_sub x p = Inr (x\<lparr>tdata := map2 (-) (tdata x) (tdata p)\<rparr>)"
    using assms(3,4) by (simp add: tf_sub_def)
  have "tf_reduce_sum (tf_pow2 (x\<lparr>tdata := map2 (-) (tdata x) (tdata p)\<rparr>)) =
        (\<Sum>n<h * w * d. (tdata x ! n - tdata p ! n) ^ 2)"
    using sum_list_sq_diff_nth [of "tdata x" "tdata p"] len
    by (simp add: tf_reduce_sum_def tf_pow2_def)
  then show ?thesis
    using nz sub assms(3) by (simp add: content_layer_loss_def Let_def)
qed

lemma content_layer_loss_sum3:
  assumes "wf_tensor p" "wf_tensor x" "get_shape p = (1, h, w, d)" "get_shape x = (1, h, w, d)"
    and "0 < h" "0 < w" "0 < d"
  shows "content_layer_loss p x =
     Inr (1 / (2 * sqrt (real d) * sqrt (real (h * w))) *
          (\<Sum>i<h. \<Sum>j<w. \<Sum>k<d. (tensor_at x i j k - tensor_at p i j k) ^ 2))"
proof -
  have dims: "tw p = w" "td p = d" "tw x = w" "td x = d"
    using assms(3,4) by (simp_all add: get_shape_def)
  show ?thesis
    unfolding content_layer_loss_flat [OF assms]
    by (simp add: sum_group3 [of _ h w d] tensor_at_def dims)
qed


text \<open>
  Claim C1. For a reference activation \<open>p\<close> and a current activation \<open>x\<close>, both of shape
  \<open>(1, h, w, d)\<close> with positive dimensions, the content loss of one layer is
  \<open>1 / (2 * sqrt d * sqrt (h * w))\<close> times the sum over all elements of \<open>(x - p)\<^sup>2\<close>.
\<close>

theorem content_layer_loss_formula:
  assumes "wf_tensor p" "wf_tensor x" "get_shape p = (1, h, w, d)" "get_shape x = (1, h, w, d)"
    and "0 < h" "0 < w" "0 < d"
  shows "content_layer_loss p x =
     Inr (1 / (2 * sqrt (real d) * sqrt (real (h * w))) *
          (\<Sum>i<h. \<Sum>j<w. \<Sum>k<d. (tensor_at x i j k - tensor_at p i j k) ^ 2))"
  using assms by (rule content_layer_loss_sum3)

theorem content_layer_loss_formula_witness:
  "wf_tensor \<lparr>th = 1, tw = 2, td = 2, tdata = [1, 2, 3, 4]\<rparr> \<and>
   wf_tensor \<lparr>th = 1, tw = 2, td = 2, tdata = [2, 2, 3, 6]\<rparr> \<and>
   get_shape \<lparr>th = 1, tw = 2, td = 2, tdata = [1, 2, 3, 4]\<rparr> = (1, 1, 2, 2) \<and>
   get_shape \<lparr>th = 1, tw = 2, td = 2, tdata = [2, 2, 3, 6]\<rparr> = (1, 1, 2, 2) \<and>
   content_layer_loss \<lparr>th = 1, tw = 2, td = 2, tdata = [1, 2, 3, 4]\<rparr>
                      \<lparr>th = 1, tw = 2, td = 2, tdata = [2, 2, 3, 6]\<rparr> = Inr (5 / 4)"
proof -
  let ?p = "\<lparr>th = 1, tw = 2, td = 2, tdata = [1, 2, 3, 4 :: real]\<rparr>"
  let ?x = "\<lparr>th = 1, tw = 2, td = 2, tdata = [2, 2, 3, 6 :: real]\<rparr>"
  have wf: "wf_tensor ?p" "wf_tensor ?x"
    by (simp_all add: wf_tensor_def)
  have sh: "get_shape ?p = (1, 1, 2, 2)" "get_shape ?x = (1, 1, 2, 2)"
    by (simp_all add: get_shape_def)
  have "content_layer_loss ?p ?x = Inr (5 / 4)"
    using content_layer_loss_formula [OF wf sh]
    by (simp add: tensor_at_def lessThan_Suc numeral_2_eq_2)
  with wf sh show ?thesis by simp
qed

subsection \<open>Style loss\<close>

text \<open>
  \<^verbatim>\<open>
  def style_layer_loss(a, x):
    _, h, w, d = a.get_shape()
    M = h.value * w.value
    N = d.value
    A = gram_matrix(a, M, N)
    G = gram_matrix(x, M, N)
    loss = (1./(4 * N**2 * M**2)) * tf.reduce_sum(tf.pow((G - A), 2))
    return loss

  def gram_matrix(x, area, depth):
    F = tf.reshape(x, (area, depth))
    G = tf.matmul(tf.transpose(F), F)
    return G
  \<close>
  A matrix is the list of its rows. \<open>tf_reshape\<close> cuts the row-major data into \<open>area\<close>
  rows of \<open>depth\<close> entries and fails when the sizes do not agree; \<open>tf_transpose\<close> and
  \<open>tf_matmul\<close> take the number of columns of their (second) argument, which a list of
  rows does not record when there is no row.
\<close>

type_synonym matrix = "real list list"

definition tf_reshape :: "tensor \<Rightarrow> nat \<times> nat \<Rightarrow> py_error + matrix" where
  "tf_reshape x shp =
     (case shp of (area, depth) \<Rightarrow>
        if length (tdata x) = area * depth
        then Inr (map (\<lambda>i. take depth (drop (i * depth) (tdata x))) [0..<area])
        else Inl ShapeError)"

definition tf_transpose :: "nat \<Rightarrow> matrix \<Rightarrow> matrix" where
  "tf_transpose ncols F = map (\<lambda>k. map (\<lambda>row. row ! k) F) [0..<ncols]"

definition tf_matmul :: "matrix \<Rightarrow> nat \<Rightarrow> matrix \<Rightarrow> matrix" where
  "tf_matmul A ncols B =
     map (\<lambda>r. map (\<lambda>l. sum_list (map2 (*) r (map (\<lambda>row. row ! l) B))) [0..<ncols]) A"

definition gram_matrix :: "tensor \<Rightarrow> nat \<Rightarrow> nat \<Rightarrow> py_error + matrix" where
  "gram_matrix x area depth =
     (case tf_reshape x (area, depth) of
        Inl e \<Rightarrow> Inl e
      | Inr F \<Rightarrow> Inr (tf_matmul (tf_transpose depth F) depth F))"

definition m_sub :: "matrix \<Rightarrow> matrix \<Rightarrow> matrix" where
  "m_sub G A = map2 (map2 (-)) G A"

definition m_pow2 :: "matrix \<Rightarrow> matrix" where
  "m_pow2 G = map (map (\<lambda>v. v ^ 2)) G"

definition m_reduce_sum :: "matrix \<Rightarrow> real" where
  "m_reduce_sum G = sum_list (map sum_list G)"

definition style_layer_loss :: "tensor \<Rightarrow> tensor \<Rightarrow> py_error + real" where
  "style_layer_loss a x =
     (case get_shape a of (_, h, w, d) \<Rightarrow>
        let M = h * w; N = d
        in (case gram_matrix a M N of
              Inl e \<Rightarrow> Inl e
            | Inr A \<Rightarrow>
               (case gram_matrix x M N of
                  Inl e \<Rightarrow> Inl e
                | Inr G \<Rightarrow>
                   if 4 * N ^ 2 * M ^ 2 = 0 then Inl ZeroDivisionError
                   else Inr ((1 / real (4 * N ^ 2 * M ^ 2)) * m_reduce_sum (m_pow2 (m_sub G A))))))"

text \<open>
  The spec's words for the Gram matrix, as a second definition to compare the code with:
  the activation is reshaped to the \<open>(h * w) \<times> d\<close> matrix \<open>F\<close>, and \<open>G = F\<^sup>t F\<close>, the \<open>d \<times> d\<close>
  matrix with \<open>G k l = \<Sum>i. F i k * F i l\<close>.
\<close>

definition F_entry :: "tensor \<Rightarrow> nat \<Rightarrow> nat \<Rightarrow> nat \<Rightarrow> real" where
  "F_entry t depth i k = tdata t ! (i * depth + k)"

definition gram_entry :: "tensor \<Rightarrow> nat \<Rightarrow> nat \<Rightarrow> nat \<Rightarrow> nat \<Rightarrow> real" where
  "gram_entry t area depth k l = (\<Sum>i<area. F_entry t depth i k * F_entry t depth i l)"

definition gram_spec :: "tensor \<Rightarrow> nat \<Rightarrow> nat \<Rightarrow> matrix" where
  "gram_spec t area depth =
     map (\<lambda>k. map (\<lambda>l. gram_entry t area depth k l) [0..<depth]) [0..<depth]"

lemma sum_nonneg_zero_iff:
  fixes n :: nat
  assumes "\<And>i. 0 \<le> F i"
  shows "(\<Sum>i<n. F i) = (0::real) \<longleftrightarrow> (\<forall>i<n. F i = 0)"
  by (subst sum_nonneg_eq_0_iff) (auto simp: assms)

lemma sum3_sq_zero_iff:
  "(\<Sum>i<h. \<Sum>j<w. \<Sum>k<d. (f i j k - g i j k) ^ 2) = (0::real) \<longleftrightarrow>
   (\<forall>i<h. \<forall>j<w. \<forall>k<d. f i j k = g i j k)"
  for h w d :: nat
proof -
  have "(\<Sum>i<h. \<Sum>j<w. \<Sum>k<d. (f i j k - g i j k) ^ 2) = 0 \<longleftrightarrow>
        (\<forall>i<h. (\<Sum>j<w. \<Sum>k<d. (f i j k - g i j k) ^ 2) = 0)"
    by (rule sum_nonneg_zero_iff) (intro sum_nonneg, simp)
  also have "\<dots> \<longleftrightarrow> (\<forall>i<h. \<forall>j<w. (\<Sum>k<d. (f i j k - g i j k) ^ 2) = 0)"
    by (simp add: sum_nonneg_zero_iff sum_nonneg)
  also have "\<dots> \<longleftrightarrow> (\<forall>i<h. \<forall>j<w. \<forall>k<d. (f i j k - g i j k) ^ 2 = 0)"
    by (simp add: sum_nonneg_zero_iff)
  finally show ?thesis by simp
qed

lemma content_layer_loss_zero_iff:
  assumes "wf_tensor p" "wf_tensor x" "get_shape p = (1, h, w, d)" "get_shape x = (1, h, w, d)"
    and "0 < h" "0 < w" "0 < d"
  shows "\<exists>c. content_layer_loss p x = Inr c \<and> 0 \<le> c \<and>
             (c = 0 \<longleftrightarrow> (\<forall>i<h. \<forall>j<w. \<forall>k<d. tensor_at x i j k = tensor_at p i j k))"
proof -
  let ?S = "\<Sum>i<h. \<Sum>j<w. \<Sum>k<d. (tensor_at x i j k - tensor_at p i j k) ^ 2"
  let ?K = "1 / (2 * sqrt (real d) * sqrt (real (h * w)))"
  have K: "0 < ?K" using assms(5-7) by simp
  have S: "0 \<le> ?S" by (intro sum_nonneg) simp
  have eq: "content_layer_loss p x = Inr (?K * ?S)"
    using assms by (rule content_layer_loss_sum3)
  have "0 \<le> ?K * ?S" using K S by simp
  moreover have "?K \<noteq> 0" using K by (rule less_imp_neq [symmetric])
  then have "?K * ?S = 0 \<longleftrightarrow> ?S = 0" by (simp only: mult_eq_0_iff simp_thms)
  ultimately show ?thesis
    using eq sum3_sq_zero_iff [where h = h and w = w and d = d and f = "tensor_at x" and g = "tensor_at p"] by simp
qed

lemma map2_map_same:
  "map2 h (map f xs) (map g xs) = map (\<lambda>x. h (f x) (g x)) xs"
  by (induction xs) simp_all

lemma reshape_row_nth:
  assumes "length xs = area * depth" "i < area" "k < depth"
  shows "take depth (drop (i * depth) xs) ! k = xs ! (i * depth + k)"
proof -
  have "i * depth + depth \<le> area * depth"
    using assms(2) by (metis Suc_leI mult_Suc mult_le_mono1 add.commute)
  then have "i * depth + k < length xs"
    using assms(1,3) by linarith
  then show ?thesis using assms(3) by simp
qed

lemma reshape_row_nth_drop:
  assumes "length xs = area * depth" "i < area" "k < depth"
  shows "drop (i * depth) xs ! k = xs ! (i * depth + k)"
  using reshape_row_nth [OF assms] assms(3) by simp

lemma gram_matrix_eq_spec:
  assumes "length (tdata x) = area * depth"
  shows "gram_matrix x area depth = Inr (gram_spec x area depth)"
proof -
  define F where "F = map (\<lambda>i. take depth (drop (i * depth) (tdata x))) [0..<area]"
  have prod: "map (\<lambda>row. row ! k * row ! l) F =
              map (\<lambda>i. tdata x ! (i * depth + k) * tdata x ! (i * depth + l)) [0..<area]"
    if "k < depth" "l < depth" for k l
    unfolding F_def using that
    by (simp add: comp_def reshape_row_nth_drop [OF assms] cong: map_cong)
  have entry: "sum_list (map2 (*) (map (\<lambda>row. row ! k) F) (map (\<lambda>row. row ! l) F)) =
               gram_entry x area depth k l" if "k < depth" "l < depth" for k l
    unfolding map2_map_same prod [OF that]
    by (simp add: gram_entry_def F_entry_def interv_sum_list_conv_sum_set_nat lessThan_atLeast0)
  have "tf_matmul (tf_transpose depth F) depth F = gram_spec x area depth"
    unfolding tf_matmul_def tf_transpose_def gram_spec_def
    by (simp add: comp_def entry cong: map_cong)
  then show ?thesis
    using assms by (simp add: gram_matrix_def tf_reshape_def F_def)
qed

lemma m_sq_diff_spec:
  "m_reduce_sum (m_pow2 (m_sub (map (\<lambda>k. map (\<lambda>l. g k l) [0..<n]) [0..<n])
                              (map (\<lambda>k. map (\<lambda>l. a k l) [0..<n]) [0..<n]))) =
   (\<Sum>k<n. \<Sum>l<n. (g k l - a k l) ^ 2)"
proof -
  have row: "sum_list (map (\<lambda>v. v ^ 2) (map2 (-) (map (\<lambda>l. g k l) [0..<n]) (map (\<lambda>l. a k l) [0..<n]))) =
             (\<Sum>l<n. (g k l - a k l) ^ 2)" for k
    by (simp only: map2_map_same) (simp add: comp_def interv_sum_list_conv_sum_set_nat lessThan_atLeast0)
  have "m_reduce_sum (m_pow2 (m_sub (map (\<lambda>k. map (\<lambda>l. g k l) [0..<n]) [0..<n])
                              (map (\<lambda>k. map (\<lambda>l. a k l) [0..<n]) [0..<n]))) =
        sum_list (map (\<lambda>k. sum_list (map (\<lambda>v. v ^ 2)
           (map2 (-) (map (\<lambda>l. g k l) [0..<n]) (map (\<lambda>l. a k l) [0..<n])))) [0..<n])"
    unfolding m_reduce_sum_def m_pow2_def m_sub_def
    by (simp only: map2_map_same map_map comp_def)
  also have "\<dots> = (\<Sum>k<n. \<Sum>l<n. (g k l - a k l) ^ 2)"
    by (simp only: row) (simp add: interv_sum_list_conv_sum_set_nat lessThan_atLeast0)
  finally show ?thesis .
qed

lemma gram_spec_eq_iff:
  "gram_spec x area depth = gram_spec a area depth \<longleftrightarrow>
   (\<forall>k<depth. \<forall>l<depth. gram_entry x area depth k l = gram_entry a area depth k l)"
  by (auto simp: gram_spec_def)

lemma style_layer_loss_value:
  assumes "wf_tensor a" "wf_tensor x" "get_shape a = (1, h, w, d)" "get_shape x = (1, h, w, d)"
    and "0 < h" "0 < w" "0 < d"
  shows "style_layer_loss a x =
     Inr (1 / real (4 * d ^ 2 * (h * w) ^ 2) *
          (\<Sum>k<d. \<Sum>l<d. (gram_entry x (h * w) d k l - gram_entry a (h * w) d k l) ^ 2))"
proof -
  have la: "length (tdata a) = h * w * d" and lx: "length (tdata x) = h * w * d"
    using assms(1-4) by (simp_all add: wf_tensor_def get_shape_def)
  have nz: "4 * d ^ 2 * (h * w) ^ 2 \<noteq> 0" using assms(5-7) by simp
  show ?thesis
    using nz assms(3)
    by (simp add: style_layer_loss_def Let_def gram_matrix_eq_spec [OF la] gram_matrix_eq_spec [OF lx]
        m_sq_diff_spec [of "gram_entry x (h * w) d" d "gram_entry a (h * w) d", folded gram_spec_def])
qed

lemma style_layer_loss_zero_iff:
  assumes "wf_tensor a" "wf_tensor x" "get_shape a = (1, h, w, d)" "get_shape x = (1, h, w, d)"
    and "0 < h" "0 < w" "0 < d"
  shows "\<exists>s. style_layer_loss a x = Inr s \<and>
             s = 1 / real (4 * d ^ 2 * (h * w) ^ 2) *
                 (\<Sum>k<d. \<Sum>l<d. (gram_entry x (h * w) d k l - gram_entry a (h * w) d k l) ^ 2) \<and>
             0 \<le> s \<and> (s = 0 \<longleftrightarrow> gram_spec x (h * w) d = gram_spec a (h * w) d)"
proof -
  let ?c = "1 / real (4 * d ^ 2 * (h * w) ^ 2)"
  let ?S = "\<Sum>k<d. \<Sum>l<d. (gram_entry x (h * w) d k l - gram_entry a (h * w) d k l) ^ 2"
  have c: "0 < ?c" using assms(5-7) by simp
  have S: "0 \<le> ?S" by (intro sum_nonneg) simp
  have iff: "?S = 0 \<longleftrightarrow> gram_spec x (h * w) d = gram_spec a (h * w) d"
  proof -
    have "?S = 0 \<longleftrightarrow> (\<forall>k<d. (\<Sum>l<d. (gram_entry x (h * w) d k l - gram_entry a (h * w) d k l) ^ 2) = 0)"
      by (rule sum_nonneg_zero_iff) (intro sum_nonneg, simp)
    also have "\<dots> \<longleftrightarrow> (\<forall>k<d. \<forall>l<d. (gram_entry x (h * w) d k l - gram_entry a (h * w) d k l) ^ 2 = 0)"
      by (simp add: sum_nonneg_zero_iff)
    finally show ?thesis by (simp add: gram_spec_eq_iff)
  qed
  have "0 \<le> ?c * ?S" using c S by simp
  moreover have "?c \<noteq> 0" using c by (rule less_imp_neq [symmetric])
  then have "?c * ?S = 0 \<longleftrightarrow> ?S = 0" by (simp only: mult_eq_0_iff simp_thms)
  ultimately show ?thesis
    using style_layer_loss_value [OF assms] iff by simp
qed

text \<open>
  Claim C3. For a reference activation \<open>r\<close> and a current activation \<open>x\<close> of the same
  shape \<open>(1, h, w, d)\<close> with positive dimensions, both per-layer losses are computed and
  are non-negative; the content loss is zero exactly when \<open>x\<close> equals \<open>r\<close> element by
  element. The Gram matrix the code computes is the matrix \<open>F\<^sup>t F\<close> of the spec, the style
  loss is \<open>1 / (4 d\<^sup>2 (h w)\<^sup>2)\<close> times the sum of the squared differences of the entries of
  the two Gram matrices, and it is zero exactly when the two Gram matrices are equal.
\<close>

theorem losses_zero_iff_and_nonneg:
  assumes "wf_tensor r" "wf_tensor x" "get_shape r = (1, h, w, d)" "get_shape x = (1, h, w, d)"
    and "0 < h" "0 < w" "0 < d"
  shows "\<exists>c s.
           content_layer_loss r x = Inr c \<and> style_layer_loss r x = Inr s \<and>
           gram_matrix r (h * w) d = Inr (gram_spec r (h * w) d) \<and>
           gram_matrix x (h * w) d = Inr (gram_spec x (h * w) d) \<and>
           s = 1 / real (4 * d ^ 2 * (h * w) ^ 2) *
               (\<Sum>k<d. \<Sum>l<d. (gram_entry x (h * w) d k l - gram_entry r (h * w) d k l) ^ 2) \<and>
           0 \<le> c \<and> 0 \<le> s \<and>
           (c = 0 \<longleftrightarrow> (\<forall>i<h. \<forall>j<w. \<forall>k<d. tensor_at x i j k = tensor_at r i j k)) \<and>
           (s = 0 \<longleftrightarrow> gram_spec x (h * w) d = gram_spec r (h * w) d)"
proof -
  have lr: "length (tdata r) = h * w * d" and lx: "length (tdata x) = h * w * d"
    using assms(1-4) by (simp_all add: wf_tensor_def get_shape_def)
  show ?thesis
    using content_layer_loss_zero_iff [OF assms] style_layer_loss_zero_iff [OF assms]
      gram_matrix_eq_spec [OF lr] gram_matrix_eq_spec [OF lx]
    by blast
qed

text \<open>
  Two instances: \<open>x = - r\<close> on a \<open>1 \<times> 2 \<times> 2\<close> activation, where the Gram matrices agree
  (style loss 0) and the content loss is positive; and the one-element activations 5
  and 7, with Gram matrices \<open>[[25]]\<close> and \<open>[[49]]\<close>, style loss 144 and content loss 2.
\<close>

theorem losses_zero_iff_and_nonneg_witness:
  "wf_tensor \<lparr>th = 1, tw = 2, td = 2, tdata = [1, 2, 3, 4]\<rparr> \<and>
   wf_tensor \<lparr>th = 1, tw = 2, td = 2, tdata = [-1, -2, -3, -4]\<rparr> \<and>
   get_shape \<lparr>th = 1, tw = 2, td = 2, tdata = [1, 2, 3, 4]\<rparr> = (1, 1, 2, 2) \<and>
   get_shape \<lparr>th = 1, tw = 2, td = 2, tdata = [-1, -2, -3, -4]\<rparr> = (1, 1, 2, 2) \<and>
   (\<exists>c. content_layer_loss \<lparr>th = 1, tw = 2, td = 2, tdata = [1, 2, 3, 4]\<rparr>
            \<lparr>th = 1, tw = 2, td = 2, tdata = [-1, -2, -3, -4]\<rparr> = Inr c \<and> 0 < c) \<and>
   style_layer_loss \<lparr>th = 1, tw = 2, td = 2, tdata = [1, 2, 3, 4]\<rparr>
      \<lparr>th = 1, tw = 2, td = 2, tdata = [-1, -2, -3, -4]\<rparr> = Inr 0 \<and>
   gram_matrix \<lparr>th = 1, tw = 2, td = 2, tdata = [1, 2, 3, 4]\<rparr> 2 2 = Inr [[10, 14], [14, 20]] \<and>
   wf_tensor \<lparr>th = 1, tw = 1, td = 1, tdata = [5]\<rparr> \<and>
   wf_tensor \<lparr>th = 1, tw = 1, td = 1, tdata = [7]\<rparr> \<and>
   gram_matrix \<lparr>th = 1, tw = 1, td = 1, tdata = [5]\<rparr> 1 1 = Inr [[25]] \<and>
   gram_matrix \<lparr>th = 1, tw = 1, td = 1, tdata = [7]\<rparr> 1 1 = Inr [[49]] \<and>
   style_layer_loss \<lparr>th = 1, tw = 1, td = 1, tdata = [5]\<rparr>
      \<lparr>th = 1, tw = 1, td = 1, tdata = [7]\<rparr> = Inr 144"
proof -
  let ?r = "\<lparr>th = 1, tw = 2, td = 2, tdata = [1, 2, 3, 4 :: real]\<rparr>"
  let ?x = "\<lparr>th = 1, tw = 2, td = 2, tdata = [-1, -2, -3, -4 :: real]\<rparr>"
  let ?p = "\<lparr>th = 1, tw = 1, td = 1, tdata = [5 :: real]\<rparr>"
  let ?q = "\<lparr>th = 1, tw = 1, td = 1, tdata = [7 :: real]\<rparr>"
  have wf: "wf_tensor ?r" "wf_tensor ?x"
    by (simp_all add: wf_tensor_def)
  have sh: "get_shape ?r = (1, 1, 2, 2)" "get_shape ?x = (1, 1, 2, 2)"
    by (simp_all add: get_shape_def)
  have wf1: "wf_tensor ?p" "wf_tensor ?q"
    by (simp_all add: wf_tensor_def)
  have sh1: "get_shape ?p = (1, 1, 1, 1)" "get_shape ?q = (1, 1, 1, 1)"
    by (simp_all add: get_shape_def)
  have pos: "(0::nat) < 1" "(0::nat) < 2"
    by simp_all
  have gs: "gram_spec ?r (1 * 2) 2 = [[10, 14], [14, 20]]"
    "gram_spec ?x (1 * 2) 2 = [[10, 14], [14, 20]]"
    by (simp_all add: gram_spec_def gram_entry_def F_entry_def upt_conv_Cons numeral_2_eq_2
        lessThan_Suc)
  have gs1: "gram_spec ?p (1 * 1) 1 = [[25]]" "gram_spec ?q (1 * 1) 1 = [[49]]"
    by (simp_all add: gram_spec_def gram_entry_def F_entry_def)
  have ne: "\<not> (\<forall>i<1. \<forall>j<2. \<forall>k<2. tensor_at ?x i j k = tensor_at ?r i j k)"
  proof
    assume "\<forall>i<1. \<forall>j<2. \<forall>k<2. tensor_at ?x i j k = tensor_at ?r i j k"
    then have "tensor_at ?x 0 0 0 = tensor_at ?r 0 0 0" by simp
    then show False by (simp add: tensor_at_def)
  qed
  obtain c s where a:
    "content_layer_loss ?r ?x = Inr c" "style_layer_loss ?r ?x = Inr s"
    "gram_matrix ?r (1 * 2) 2 = Inr (gram_spec ?r (1 * 2) 2)"
    "0 \<le> c" "0 \<le> s"
    "c = 0 \<longleftrightarrow> (\<forall>i<1. \<forall>j<2. \<forall>k<2. tensor_at ?x i j k = tensor_at ?r i j k)"
    "s = 0 \<longleftrightarrow> gram_spec ?x (1 * 2) 2 = gram_spec ?r (1 * 2) 2"
    using losses_zero_iff_and_nonneg [OF wf sh pos(1) pos(2) pos(2)]
    by (elim exE conjE) (rule that; assumption)
  obtain c1 s1 where b:
    "style_layer_loss ?p ?q = Inr s1"
    "gram_matrix ?p (1 * 1) 1 = Inr (gram_spec ?p (1 * 1) 1)"
    "gram_matrix ?q (1 * 1) 1 = Inr (gram_spec ?q (1 * 1) 1)"
    "s1 = 1 / real (4 * 1 ^ 2 * (1 * 1) ^ 2) *
        (\<Sum>k<1. \<Sum>l<1. (gram_entry ?q (1 * 1) 1 k l - gram_entry ?p (1 * 1) 1 k l) ^ 2)"
    using losses_zero_iff_and_nonneg [OF wf1 sh1 pos(1) pos(1) pos(1)]
    by (elim exE conjE) (rule that; assumption)
  have s1: "s1 = 144"
    unfolding b(4) by (simp add: gram_entry_def F_entry_def)
  have "content_layer_loss ?r ?x = Inr c \<and> 0 < c" "style_layer_loss ?r ?x = Inr 0"
    using a gs ne by auto
  moreover have "gram_matrix ?r 2 2 = Inr [[10, 14], [14, 20]]"
    using a(3) gs by simp
  moreover have "gram_matrix ?p 1 1 = Inr [[25]]" "gram_matrix ?q 1 1 = Inr [[49]]"
    using b(2,3) gs1 by simp_all
  moreover have "style_layer_loss ?p ?q = Inr 144"
    using b(1) s1 by simp
  ultimately show ?thesis using wf wf1 sh by blast
qed

section \<open>The VGG-19 graph built by \<open>build_model\<close>\<close>

text \<open>
  \<open>build_model\<close> fills the dictionary \<open>net\<close> with one TensorFlow node per layer:
  \<^verbatim>\<open>
  net['input']   = tf.Variable(np.zeros((1, h, w, d), dtype=np.float32))
  net['conv1_1'] = conv_layer('conv1_1', net['input'], W=get_weights(vgg_layers, 0))
  net['relu1_1'] = relu_layer('relu1_1', net['conv1_1'], b=get_bias(vgg_layers, 0))
  net['conv1_2'] = conv_layer('conv1_2', net['relu1_1'], W=get_weights(vgg_layers, 2))
  net['relu1_2'] = relu_layer('relu1_2', net['conv1_2'], b=get_bias(vgg_layers, 2))
  net['pool1']   = pool_layer('pool1', net['relu1_2'])
  ...
  \<close>
  A node records the key of the node it reads and, for a convolution or a bias layer,
  the index \<open>i\<close> that \<open>get_weights(vgg_layers, i)\<close> or \<open>get_bias(vgg_layers, i)\<close> reads
  in the weight store. The dictionary is the list of its entries in insertion order.
\<close>

datatype tf_node =
    InputVar
  | Conv2d string nat
  | ReluBias string nat
  | AvgPool string

definition build_model :: "(string \<times> tf_node) list" where
  "build_model =
     [(''input'', InputVar),
      (''conv1_1'', Conv2d ''input'' 0),
      (''relu1_1'', ReluBias ''conv1_1'' 0),
      (''conv1_2'', Conv2d ''relu1_1'' 2),
      (''relu1_2'', ReluBias ''conv1_2'' 2),
      (''pool1'', AvgPool ''relu1_2''),
      (''conv2_1'', Conv2d ''pool1'' 5),
      (''relu2_1'', ReluBias ''conv2_1'' 5),
      (''conv2_2'', Conv2d ''relu2_1'' 7),
      (''relu2_2'', ReluBias ''conv2_2'' 7),
      (''pool2'', AvgPool ''relu2_2''),
      (''conv3_1'', Conv2d ''pool2'' 10),
      (''relu3_1'', ReluBias ''conv3_1'' 10),
      (''conv3_2'', Conv2d ''relu3_1'' 12),
      (''relu3_2'', ReluBias ''conv3_2'' 12),
      (''conv3_3'', Conv2d ''relu3_2'' 14),
      (''relu3_3'', ReluBias ''conv3_3'' 14),
      (''conv3_4'', Conv2d ''relu3_3'' 16),
      (''relu3_4'', ReluBias ''conv3_4'' 16),
      (''pool3'', AvgPool ''relu3_4''),
      (''conv4_1'', Conv2d ''pool3'' 19),
      (''relu4_1'', ReluBias ''conv4_1'' 19),
      (''conv4_2'', Conv2d ''relu4_1'' 21),
      (''relu4_2'', ReluBias ''conv4_2'' 21),
      (''conv4_3'', Conv2d ''relu4_2'' 23),
      (''relu4_3'', ReluBias ''conv4_3'' 23),
      (''conv4_4'', Conv2d ''relu4_3'' 25),
      (''relu4_4'', ReluBias ''conv4_4'' 25),
      (''pool4'', AvgPool ''relu4_4''),
      (''conv5_1'', Conv2d ''pool4'' 28),
      (''relu5_1'', ReluBias ''conv5_1'' 28),
      (''conv5_2'', Conv2d ''relu5_1'' 30),
      (''relu5_2'', ReluBias ''conv5_2'' 30),
      (''conv5_3'', Conv2d ''relu5_2'' 32),
      (''relu5_3'', ReluBias ''conv5_3'' 32),
      (''conv5_4'', Conv2d ''relu5_3'' 34),
      (''relu5_4'', ReluBias ''conv5_4'' 34),
      (''pool5'', AvgPool ''relu5_4'')]"

fun conv_indices :: "(string \<times> tf_node) list \<Rightarrow> nat list" where
  "conv_indices [] = []"
| "conv_indices ((_, Conv2d _ i) # net) = i # conv_indices net"
| "conv_indices (_ # net) = conv_indices net"

fun relu_indices :: "(string \<times> tf_node) list \<Rightarrow> nat list" where
  "relu_indices [] = []"
| "relu_indices ((_, ReluBias _ i) # net) = i # relu_indices net"
| "relu_indices (_ # net) = relu_indices net"

text \<open>
  \<open>pool_blocks cur net\<close> cuts the layer sequence after every pooling layer and returns,
  for each piece, the weight indices of its convolution layers; \<open>cur\<close> holds the indices
  of the piece being read, last first. Layers after the last pooling layer would form
  one more piece.
\<close>

fun pool_blocks :: "nat list \<Rightarrow> (string \<times> tf_node) list \<Rightarrow> nat list list" where
  "pool_blocks cur [] = (if cur = [] then [] else [rev cur])"
| "pool_blocks cur ((_, AvgPool _) # net) = rev cur # pool_blocks [] net"
| "pool_blocks cur ((_, Conv2d _ i) # net) = pool_blocks (i # cur) net"
| "pool_blocks cur (_ # net) = pool_blocks cur net"

definition index_steps :: "nat list \<Rightarrow> int list" where
  "index_steps idxs = map2 (\<lambda>a b. int b - int a) idxs (tl idxs)"

text \<open>
  \<open>chained prev net\<close>: every layer reads the layer entered just before it, and a bias
  layer uses the index of the convolution it follows.
\<close>

fun chained :: "string \<times> tf_node \<Rightarrow> (string \<times> tf_node) list \<Rightarrow> bool" where
  "chained prev [] = True"
| "chained (pn, pv) ((n, v) # net) =
     ((case v of
         InputVar \<Rightarrow> False
       | Conv2d src i \<Rightarrow> src = pn \<and> (case pv of Conv2d _ _ \<Rightarrow> False | _ \<Rightarrow> True)
       | ReluBias src i \<Rightarrow> src = pn \<and> (case pv of Conv2d _ j \<Rightarrow> i = j | _ \<Rightarrow> False)
       | AvgPool src \<Rightarrow> src = pn \<and> (case pv of ReluBias _ _ \<Rightarrow> True | _ \<Rightarrow> False))
      \<and> chained (n, v) net)"

text \<open>
  Claim C4. The network has 16 convolution layers, each followed by its activation
  layer with the same weight index, in 5 blocks of sizes 2, 2, 4, 4, 4, each block
  closed by one pooling layer; the weight index grows by 2 between consecutive
  convolutions of a block and by 3 across a pooling layer, the sequence being
  0, 2, 5, 7, 10, 12, 14, 16, 19, 21, 23, 25, 28, 30, 32, 34.
\<close>

theorem build_model_topology:
  "length (conv_indices build_model) = 16 \<and>
   relu_indices build_model = conv_indices build_model \<and>
   chained (hd build_model) (tl build_model) \<and>
   hd build_model = (''input'', InputVar) \<and>
   pool_blocks [] build_model =
     [[0, 2], [5, 7], [10, 12, 14, 16], [19, 21, 23, 25], [28, 30, 32, 34]] \<and>
   map length (pool_blocks [] build_model) = [2, 2, 4, 4, 4] \<and>
   length (filter (\<lambda>(n, v). case v of AvgPool _ \<Rightarrow> True | _ \<Rightarrow> False) build_model) = 5 \<and>
   map index_steps (pool_blocks [] build_model) = [[2], [2], [2, 2, 2], [2, 2, 2], [2, 2, 2]] \<and>
   map2 (\<lambda>b c. int (hd c) - int (last b)) (pool_blocks [] build_model)
        (tl (pool_blocks [] build_model)) = [3, 3, 3, 3] \<and>
   conv_indices build_model = [0, 2, 5, 7, 10, 12, 14, 16, 19, 21, 23, 25, 28, 30, 32, 34]"
  by (simp add: build_model_def index_steps_def)

section \<open>The render configuration\<close>

text \<open>
  The functions of the program read their parameters from the global \<open>args\<close>, the
  namespace that \<open>parse_args\<close> returns; here \<open>args\<close> is a record passed as an argument. It
  has a field for every attribute the modelled functions read. No declaration of the
  parser provides \<open>beta2\<close>, which \<open>get_optimizer\<close> reads: the field is optional, \<open>None\<close>
  standing for the missing attribute, whose read raises \<^verbatim>\<open>AttributeError\<close>.
  \<open>optimizer\<close> is one of the two choices the parser admits. \<open>img_name\<close> and
  \<open>content_img\<close> have no default and may be \<^verbatim>\<open>None\<close>. \<open>default_args\<close> below holds the
  defaults of the parser's declarations (the first one of \<open>beta1\<close>) with the example file
  names of their help texts.
\<close>

datatype optimizer_kind = lbfgs | adam

record args =
  verbose :: bool
  img_name :: "string option"
  style_imgs :: "string list"
  style_imgs_weights :: "real list"
  content_img :: "string option"
  img_output_dir :: string
  max_size :: int
  content_weight :: real
  style_weight :: real
  tv_weight :: real
  content_layers :: "string list"
  style_layers :: "string list"
  content_layer_weights :: "real list"
  style_layer_weights :: "real list"
  optimizer :: optimizer_kind
  learning_rate :: real
  beta1 :: real
  beta2 :: "real option"
  epsilon :: real
  blocks :: int
  max_iterations :: int
  print_iterations :: int

section \<open>Output paths\<close>

text \<open>
  \<^verbatim>\<open>
  def get_image_savename(block, iteration):
    if args.img_name != None:
      out_dir = os.path.join(args.img_output_dir, args.img_name)
    else:
      out_subdir = args.content_img[:-4]+'.'+args.style_imgs[0][:-4]
      out_dir = os.path.join(args.img_output_dir, out_subdir)
    out_dir += str(args.max_size)
    if args.optimizer == 'adam':
      out_dir += 'A'
      out_dir += '('str(args.learning_rate)+','str(args.beta1)+','+str(args.beta2)
                  +','+str(args.epsilon)+')'
    else:
      out_dir += 'LBFGS'
    if args.blocks != 1:
      out_dir += str(args.blocks) + 'x'
    out_dir += str(args.max_iterations)
    # store intermediary images in 'iters' subfolder
    if block < args.blocks or iteration < args.max_iterations:
      out_dir = os.path.join(out_dir, 'iters')
    maybe_make_directory(out_dir)
    if args.img_name != None:
      img_path = os.path.join(out_dir, args.img_name)
    else:
      img_path = os.path.join(out_dir, str(block)+'.'+str(iteration)+'.png')
    return out_dir, img_path
  \<close>
  The statement that appends the Adam parameters (\<^verbatim>\<open>out_dir += '('str(...)\<close>) is not
  Python: two \<^verbatim>\<open>+\<close> signs are missing. What it appends to \<open>out_dir\<close>, or the exception
  it raises, is therefore not determined by the source and is the parameter \<open>adam_part\<close>
  of the model (a string, or an error); the other statements are modelled as written.
  \<open>str_int\<close> is Python's \<^verbatim>\<open>str\<close> on an integer, \<open>os_path_join\<close> is POSIX
  \<^verbatim>\<open>os.path.join\<close> on two arguments, \<open>drop_last4\<close> is the slice \<^verbatim>\<open>[:-4]\<close>.
  The file system is the list of directories made and the list of files written, in
  order. \<open>savename_paths\<close> computes the two names; \<open>get_image_savename\<close> adds the effect
  of \<open>maybe_make_directory\<close>.
\<close>

function str_nat :: "nat \<Rightarrow> string" where
  "str_nat n =
     (if n < 10 then [''0123456789'' ! n]
      else str_nat (n div 10) @ [''0123456789'' ! (n mod 10)])"
  by pat_completeness auto
termination
  by (relation "measure id") auto

declare str_nat.simps [simp del]

definition str_int :: "int \<Rightarrow> string" where
  "str_int i = (if i < 0 then CHR ''-'' # str_nat (nat (- i)) else str_nat (nat i))"

definition os_path_join :: "string \<Rightarrow> string \<Rightarrow> string" where
  "os_path_join a b =
     (if b \<noteq> [] \<and> hd b = CHR ''/'' then b
      else if a = [] \<or> last a = CHR ''/'' then a @ b
      else a @ ''/'' @ b)"

definition drop_last4 :: "string \<Rightarrow> string" where
  "drop_last4 s = take (length s - 4) s"

record 'img filesys =
  dirs :: "string list"
  files :: "(string \<times> 'img) list"

definition maybe_make_directory :: "'img filesys \<Rightarrow> string \<Rightarrow> 'img filesys" where
  "maybe_make_directory fs dir_path =
     (if dir_path \<in> set (dirs fs) then fs else fs\<lparr>dirs := dirs fs @ [dir_path]\<rparr>)"

definition savename_paths ::
  "py_error + string \<Rightarrow> args \<Rightarrow> int \<Rightarrow> int \<Rightarrow> py_error + string \<times> string" where
  "savename_paths adam_part a block iteration =
     (case (case img_name a of
              Some nm \<Rightarrow> Inr (os_path_join (img_output_dir a) nm)
            | None \<Rightarrow>
               (case content_img a of
                  None \<Rightarrow> Inl TypeError
                | Some c \<Rightarrow>
                   (case style_imgs a of
                      [] \<Rightarrow> Inl IndexError
                    | s # _ \<Rightarrow>
                       Inr (os_path_join (img_output_dir a)
                              (drop_last4 c @ ''.'' @ drop_last4 s))))) of
        Inl e \<Rightarrow> Inl e
      | Inr out_dir0 \<Rightarrow>
         (case (if optimizer a = adam
                then (case adam_part of
                        Inl e \<Rightarrow> Inl e
                      | Inr appended \<Rightarrow> Inr (out_dir0 @ str_int (max_size a) @ ''A'' @ appended))
                else Inr (out_dir0 @ str_int (max_size a) @ ''LBFGS'')) of
            Inl e \<Rightarrow> Inl e
          | Inr out_dir2 \<Rightarrow>
         (let out_dir3 =
                (if blocks a \<noteq> 1 then out_dir2 @ str_int (blocks a) @ ''x'' else out_dir2);
              out_dir4 = out_dir3 @ str_int (max_iterations a);
              out_dir5 =
                (if block < blocks a \<or> iteration < max_iterations a
                 then os_path_join out_dir4 ''iters'' else out_dir4);
              img_path =
                (case img_name a of
                   Some nm \<Rightarrow> os_path_join out_dir5 nm
                 | None \<Rightarrow>
                    os_path_join out_dir5 (str_int block @ ''.'' @ str_int iteration @ ''.png''))
          in Inr (out_dir5, img_path))))"

definition get_image_savename ::
  "py_error + string \<Rightarrow> args \<Rightarrow> 'img filesys \<Rightarrow> int \<Rightarrow> int
   \<Rightarrow> py_error + 'img filesys \<times> string \<times> string" where
  "get_image_savename adam_part a fs block iteration =
     (case savename_paths adam_part a block iteration of
        Inl e \<Rightarrow> Inl e
      | Inr (out_dir, img_path) \<Rightarrow> Inr (maybe_make_directory fs out_dir, out_dir, img_path))"

definition default_args :: args where
  "default_args =
     \<lparr>verbose = False, img_name = None, style_imgs = [''starry-night.jpg''],
      style_imgs_weights = [1], content_img = Some ''lion.jpg'',
      img_output_dir = ''./image_output'', max_size = 512,
      content_weight = 5, style_weight = 10000, tv_weight = 1 / 1000,
      content_layers = [''conv4_2''],
      style_layers = [''relu1_1'', ''relu2_1'', ''relu3_1'', ''relu4_1'', ''relu5_1''],
      content_layer_weights = [1], style_layer_weights = [1/5, 1/5, 1/5, 1/5, 1/5],
      optimizer = lbfgs, learning_rate = 10, beta1 = 9 / 10,
      beta2 = None, epsilon = 1 / 100000000,
      blocks = 1, max_iterations = 1000, print_iterations = 50\<rparr>"


section \<open>The optimizer driver\<close>

text \<open>
  \<^verbatim>\<open>
  def minimize_with_adam(sess, net, optimizer, init_img, loss):
    train_op = optimizer.minimize(loss)
    init_op = tf.global_variables_initializer()
    sess.run(init_op)
    sess.run(net['input'].assign(init_img))
    block = 0
    while block < args.blocks:
      iteration = 0
      while (iteration < args.max_iterations):
        sess.run(train_op)
        # print output and save intermediary images
        if iteration % args.print_iterations == 0 and args.verbose:
          curr_loss = loss.eval()
          print("At iterate {}\tf=  {}".format(iteration, curr_loss))
          output_img = sess.run(net['input'])
          out_dir, img_path = get_image_savename(block, iteration)
          write_image(img_path, output_img)
        iteration += 1
      block += 1
  \<close>
  The session holds the value of \<^verbatim>\<open>net['input']\<close>, the file system and what was
  printed (iteration and loss). \<open>train_op\<close> is one update step of the optimizer on the
  image and \<open>loss\<close> the value of the objective at an image; both are parameters.
  \<open>write_image\<close> records the image it is given (the file receives its \<open>postprocess\<close>).
  \<open>checkpoint\<close> is the body of the \<^verbatim>\<open>if\<close>. Python's \<^verbatim>\<open>%\<close> raises on a zero
  modulus, before \<^verbatim>\<open>args.verbose\<close> is read. \<open>minimize_with_lbfgs\<close>,
  \<open>write_image_output\<close>, \<open>get_optimizer\<close> and the end of \<open>stylize\<close> follow the source
  in the same way; the text of the metadata file is not modelled.
\<close>

datatype 'img payload = Image 'img | MetaData

record 'img session =
  net_input :: 'img
  fsys :: "'img payload filesys"
  console :: "(int \<times> real) list"

definition write_image :: "'img payload filesys \<Rightarrow> string \<Rightarrow> 'img \<Rightarrow> 'img payload filesys" where
  "write_image fs path img = fs\<lparr>files := files fs @ [(path, Image img)]\<rparr>"

definition checkpoint ::
  "py_error + string \<Rightarrow> args \<Rightarrow> ('img \<Rightarrow> real) \<Rightarrow> int \<Rightarrow> int \<Rightarrow> 'img session \<Rightarrow> py_error + 'img session" where
  "checkpoint adam_part a loss block iteration st =
     (let curr_loss = loss (net_input st);
          st1 = st\<lparr>console := console st @ [(iteration, curr_loss)]\<rparr>;
          output_img = net_input st1
      in (case get_image_savename adam_part a (fsys st1) block iteration of
            Inl e \<Rightarrow> Inl e
          | Inr (fs, out_dir, img_path) \<Rightarrow>
              Inr (st1\<lparr>fsys := write_image fs img_path output_img\<rparr>)))"

function adam_iterations ::
  "py_error + string \<Rightarrow> args \<Rightarrow> ('img \<Rightarrow> 'img) \<Rightarrow> ('img \<Rightarrow> real) \<Rightarrow> int \<Rightarrow> int \<Rightarrow> 'img session
   \<Rightarrow> py_error + 'img session" where
  "adam_iterations adam_part a train_op loss block iteration st =
     (if iteration < max_iterations a then
        (let st1 = st\<lparr>net_input := train_op (net_input st)\<rparr>
         in if print_iterations a = 0 then Inl ZeroDivisionError
            else (case (if iteration mod print_iterations a = 0 \<and> verbose a
                        then checkpoint adam_part a loss block iteration st1 else Inr st1) of
                    Inl e \<Rightarrow> Inl e
                  | Inr st2 \<Rightarrow> adam_iterations adam_part a train_op loss block (iteration + 1) st2))
      else Inr st)"
  by pat_completeness auto
termination
  by (relation "measure (\<lambda>(adam_part, a, train_op, loss, block, iteration, st).
                 nat (max_iterations a - iteration))")
     auto

declare adam_iterations.simps [simp del]

function adam_blocks ::
  "py_error + string \<Rightarrow> args \<Rightarrow> ('img \<Rightarrow> 'img) \<Rightarrow> ('img \<Rightarrow> real) \<Rightarrow> int \<Rightarrow> 'img session \<Rightarrow> py_error + 'img session" where
  "adam_blocks adam_part a train_op loss block st =
     (if block < blocks a then
        (case adam_iterations adam_part a train_op loss block 0 st of
           Inl e \<Rightarrow> Inl e
         | Inr st1 \<Rightarrow> adam_blocks adam_part a train_op loss (block + 1) st1)
      else Inr st)"
  by pat_completeness auto
termination
  by (relation "measure (\<lambda>(adam_part, a, train_op, loss, block, st). nat (blocks a - block))") auto

declare adam_blocks.simps [simp del]

definition minimize_with_adam ::
  "py_error + string \<Rightarrow> args \<Rightarrow> ('img \<Rightarrow> 'img) \<Rightarrow> ('img \<Rightarrow> real) \<Rightarrow> 'img session \<Rightarrow> 'img \<Rightarrow> py_error + 'img session" where
  "minimize_with_adam adam_part a train_op loss st init_img =
     adam_blocks adam_part a train_op loss 0 (st\<lparr>net_input := init_img\<rparr>)"

function lbfgs_blocks ::
  "py_error + string \<Rightarrow> args \<Rightarrow> ('img \<Rightarrow> 'img) \<Rightarrow> int \<Rightarrow> 'img session \<Rightarrow> py_error + 'img session" where
  "lbfgs_blocks adam_part a minimize block st =
     (if block < blocks a then
        (let st1 = st\<lparr>net_input := minimize (net_input st)\<rparr>;
             output_img = net_input st1
         in (case get_image_savename adam_part a (fsys st1) block (max_iterations a) of
               Inl e \<Rightarrow> Inl e
             | Inr (fs, out_dir, img_path) \<Rightarrow>
                 lbfgs_blocks adam_part a minimize (block + 1)
                   (st1\<lparr>fsys := write_image fs img_path output_img\<rparr>)))
      else Inr st)"
  by pat_completeness auto
termination
  by (relation "measure (\<lambda>(adam_part, a, minimize, block, st). nat (blocks a - block))") auto

declare lbfgs_blocks.simps [simp del]

definition minimize_with_lbfgs ::
  "py_error + string \<Rightarrow> args \<Rightarrow> ('img \<Rightarrow> 'img) \<Rightarrow> 'img session \<Rightarrow> 'img \<Rightarrow> py_error + 'img session" where
  "minimize_with_lbfgs adam_part a minimize st init_img =
     lbfgs_blocks adam_part a minimize 0 (st\<lparr>net_input := init_img\<rparr>)"

fun write_style_copies ::
  "'img payload filesys \<Rightarrow> string \<Rightarrow> int \<Rightarrow> 'img list \<Rightarrow> 'img payload filesys" where
  "write_style_copies fs out_dir index [] = fs"
| "write_style_copies fs out_dir index (style_img # style_images) =
     write_style_copies
       (write_image fs (os_path_join out_dir (str_int index @ ''_style.png'')) style_img)
       out_dir (index + 1) style_images"

definition write_image_output ::
  "py_error + string \<Rightarrow> args \<Rightarrow> 'img payload filesys \<Rightarrow> 'img \<Rightarrow> 'img \<Rightarrow> 'img list \<Rightarrow> py_error + 'img payload filesys" where
  "write_image_output adam_part a fs0 output_img content_image style_images =
     (case get_image_savename adam_part a fs0 (blocks a) 0 of
        Inl e \<Rightarrow> Inl e
      | Inr (fs1, out_dir, img_path) \<Rightarrow>
         (let content_path = os_path_join out_dir ''0content.png'';
              fs2 = write_image fs1 img_path output_img;
              fs3 = write_image fs2 content_path content_image;
              fs4 = write_style_copies fs3 out_dir 0 style_images;
              out_file = os_path_join out_dir ''meta_data.txt''
          in Inr (fs4\<lparr>files := files fs4 @ [(out_file, MetaData)]\<rparr>)))"

datatype optimizer_obj =
    ScipyOptimizerInterface int int
  | AdamOptimizer real real real real

definition get_optimizer :: "args \<Rightarrow> py_error + optimizer_obj" where
  "get_optimizer a =
     (let print_its = (if verbose a then print_iterations a else 0)
      in (case optimizer a of
            lbfgs \<Rightarrow> Inr (ScipyOptimizerInterface (max_iterations a) print_its)
          | adam \<Rightarrow>
             (case beta2 a of
                None \<Rightarrow> Inl (AttributeError ''beta2'')
              | Some b2 \<Rightarrow>
                 Inr (AdamOptimizer (learning_rate a) (beta1 a) b2 (epsilon a)))))"

text \<open>The part of \<open>stylize\<close> after the loss has been assembled.\<close>

definition stylize_run ::
  "py_error + string \<Rightarrow> args \<Rightarrow> (optimizer_obj \<Rightarrow> 'img \<Rightarrow> 'img) \<Rightarrow> ('img \<Rightarrow> real) \<Rightarrow> 'img session
   \<Rightarrow> 'img \<Rightarrow> 'img list \<Rightarrow> 'img \<Rightarrow> py_error + 'img session" where
  "stylize_run adam_part a step L_total st content_image style_images init_img =
     (case get_optimizer a of
        Inl e \<Rightarrow> Inl e
      | Inr optimizer_o \<Rightarrow>
         (case (case optimizer a of
                  adam \<Rightarrow> minimize_with_adam adam_part a (step optimizer_o) L_total st init_img
                | lbfgs \<Rightarrow> minimize_with_lbfgs adam_part a (step optimizer_o) st init_img) of
            Inl e \<Rightarrow> Inl e
          | Inr st1 \<Rightarrow>
             (let output_img = net_input st1
              in (case write_image_output adam_part a (fsys st1) output_img content_image style_images of
                    Inl e \<Rightarrow> Inl e
                  | Inr fs \<Rightarrow> Inr (st1\<lparr>fsys := fs\<rparr>)))))"


definition adam_args :: args where
  "adam_args = default_args\<lparr>optimizer := adam, blocks := 2, max_iterations := 10,
                            print_iterations := 5\<rparr>"

definition session0 :: "nat session" where
  "session0 = \<lparr>net_input = 0, fsys = \<lparr>dirs = [], files = []\<rparr>, console = []\<rparr>"

lemma files_maybe_make_directory [simp]:
  "files (maybe_make_directory fs d) = files fs"
  by (simp add: maybe_make_directory_def)

lemma files_write_image [simp]:
  "files (write_image fs p img) = files fs @ [(p, Image img)]"
  by (simp add: write_image_def)

lemma files_write_style_copies:
  "files (write_style_copies fs d i ss) =
   files fs @ files (write_style_copies \<lparr>dirs = [], files = []\<rparr> d i ss)"
proof (induction ss arbitrary: fs i)
  case Nil
  then show ?case by simp
next
  case (Cons s ss)
  show ?case
    by (simp add: Cons.IH [of "write_image fs (os_path_join d (str_int i @ ''_style.png'')) s"]
        Cons.IH [of "write_image \<lparr>dirs = [], files = []\<rparr> (os_path_join d (str_int i @ ''_style.png'')) s"])
qed

lemma adam_iterations_10_by_5:
  assumes "verbose a" "max_iterations a = 10" "print_iterations a = 5"
    and "savename_paths adam_part a block 0 = Inr (d0, p0)"
    and "savename_paths adam_part a block 5 = Inr (d5, p5)"
  shows "\<exists>st'. adam_iterations adam_part a train_op loss block 0 st = Inr st' \<and>
           net_input st' = (train_op ^^ 10) (net_input st) \<and>
           files (fsys st') =
             files (fsys st) @ [(p0, Image (train_op (net_input st))),
                                (p5, Image ((train_op ^^ 6) (net_input st)))] \<and>
           console st' =
             console st @ [(0, loss (train_op (net_input st))),
                           (5, loss ((train_op ^^ 6) (net_input st)))]"
  using assms
  by (simp add: adam_iterations.simps checkpoint_def get_image_savename_def Let_def
      eval_nat_numeral)

lemma adam_iterations_10_quiet:
  assumes "\<not> verbose a" "max_iterations a = 10" "print_iterations a = 5"
  shows "adam_iterations adam_part a train_op loss block 0 st =
         Inr (st\<lparr>net_input := (train_op ^^ 10) (net_input st)\<rparr>)"
  using assms
  by (simp add: adam_iterations.simps Let_def eval_nat_numeral)

lemma adam_run_quiet:
  assumes "\<not> verbose a" "blocks a = 2" "max_iterations a = 10" "print_iterations a = 5"
  shows "minimize_with_adam adam_part a train_op loss st init_img =
         Inr (st\<lparr>net_input := (train_op ^^ 20) init_img\<rparr>)"
proof -
  have f: "(train_op ^^ 10) ((train_op ^^ 10) init_img) = (train_op ^^ 20) init_img"
    by (simp add: eval_nat_numeral)
  show ?thesis
    using assms(2) f
    by (simp add: minimize_with_adam_def adam_blocks.simps
        adam_iterations_10_quiet [OF assms(1,3,4)])
qed

lemma adam_run_naming_error:
  assumes "verbose a" "blocks a = 2" "max_iterations a = 10" "print_iterations a = 5"
    and "savename_paths adam_part a 0 0 = Inl e"
  shows "minimize_with_adam adam_part a train_op loss st init_img = Inl e"
  using assms
  by (simp add: minimize_with_adam_def adam_blocks.simps adam_iterations.simps checkpoint_def
      get_image_savename_def Let_def)

lemma adam_run_2_by_10_by_5:
  assumes "verbose a" "blocks a = 2" "max_iterations a = 10" "print_iterations a = 5"
    and "savename_paths adam_part a 0 0 = Inr (d00, p00)"
    and "savename_paths adam_part a 0 5 = Inr (d05, p05)"
    and "savename_paths adam_part a 1 0 = Inr (d10, p10)"
    and "savename_paths adam_part a 1 5 = Inr (d15, p15)"
  shows "\<exists>st1. minimize_with_adam adam_part a train_op loss st init_img = Inr st1 \<and>
           net_input st1 = (train_op ^^ 20) init_img \<and>
           files (fsys st1) =
             files (fsys st) @ [(p00, Image ((train_op ^^ 1) init_img)),
                                (p05, Image ((train_op ^^ 6) init_img)),
                                (p10, Image ((train_op ^^ 11) init_img)),
                                (p15, Image ((train_op ^^ 16) init_img))] \<and>
           console st1 =
             console st @ [(0, loss ((train_op ^^ 1) init_img)),
                           (5, loss ((train_op ^^ 6) init_img)),
                           (0, loss ((train_op ^^ 11) init_img)),
                           (5, loss ((train_op ^^ 16) init_img))]"
proof -
  let ?s0 = "st\<lparr>net_input := init_img\<rparr>"
  obtain sa where sa: "adam_iterations adam_part a train_op loss 0 0 ?s0 = Inr sa"
    "net_input sa = (train_op ^^ 10) (net_input ?s0)"
    "files (fsys sa) = files (fsys ?s0) @ [(p00, Image (train_op (net_input ?s0))),
                                (p05, Image ((train_op ^^ 6) (net_input ?s0)))]"
    "console sa = console ?s0 @ [(0, loss (train_op (net_input ?s0))),
                           (5, loss ((train_op ^^ 6) (net_input ?s0)))]"
    using adam_iterations_10_by_5 [OF assms(1,3,4,5,6), of train_op loss ?s0] by blast
  obtain sb where sb: "adam_iterations adam_part a train_op loss 1 0 sa = Inr sb"
    "net_input sb = (train_op ^^ 10) (net_input sa)"
    "files (fsys sb) = files (fsys sa) @ [(p10, Image (train_op (net_input sa))),
                                (p15, Image ((train_op ^^ 6) (net_input sa)))]"
    "console sb = console sa @ [(0, loss (train_op (net_input sa))),
                           (5, loss ((train_op ^^ 6) (net_input sa)))]"
    using adam_iterations_10_by_5 [OF assms(1,3,4,7,8), of train_op loss sa] by blast
  have run: "minimize_with_adam adam_part a train_op loss st init_img = Inr sb"
    using sa(1) sb(1) assms(2) by (simp add: minimize_with_adam_def adam_blocks.simps)
  have f: "(train_op ^^ 10) ((train_op ^^ 10) init_img) = (train_op ^^ 20) init_img"
    "train_op ((train_op ^^ 10) init_img) = (train_op ^^ 11) init_img"
    "(train_op ^^ 6) ((train_op ^^ 10) init_img) = (train_op ^^ 16) init_img"
    by (simp_all add: eval_nat_numeral)
  show ?thesis
    using run sa(2-4) sb(2-4) f by simp
qed

lemma write_image_output_files:
  assumes "savename_paths adam_part a (blocks a) 0 = Inr (df, pf)"
  shows "\<exists>fs1. write_image_output adam_part a fs output_img content_image style_images = Inr fs1 \<and>
           files fs1 =
             files fs @
             [(pf, Image output_img), (os_path_join df ''0content.png'', Image content_image)] @
             files (write_style_copies \<lparr>dirs = [], files = []\<rparr> df 0 style_images) @
             [(os_path_join df ''meta_data.txt'', MetaData)]"
  using assms
  by (simp add: write_image_output_def get_image_savename_def Let_def
      files_write_style_copies [of "write_image _ _ _"])

text \<open>
  Claim C7, as amended. The statement is about the loop of \<open>minimize_with_adam\<close> and the
  final write of \<open>write_image_output\<close>, for 2 blocks of 10 iterations with interval 5.
  Without the \<open>verbose\<close> flag the loop takes its 20 update steps, evaluates no loss and
  writes no checkpoint. With the flag, the first checkpoint asks \<open>get_image_savename\<close> for
  its file name: when that raises, the loop ends with this exception; when the names of
  the four checkpoints are computed, the loop evaluates the loss and writes a checkpoint
  at iterations 0 and 5 of each block, 4 checkpoints in all, each holding the image after
  that iteration's update step. When the name of the final output is computed,
  \<open>write_image_output\<close> writes the final image once, then the copies of the inputs and
  the metadata file. Whether the optimizer is constructed before the loop, and what the
  unparseable statement of \<open>get_image_savename\<close> does, is left open here.
\<close>

theorem adam_checkpoints_when_verbose:
  assumes "blocks a = 2" "max_iterations a = 10" "print_iterations a = 5"
  shows "(\<not> verbose a \<longrightarrow>
            minimize_with_adam adam_part a train_op loss st init_img =
              Inr (st\<lparr>net_input := (train_op ^^ 20) init_img\<rparr>)) \<and>
         (verbose a \<longrightarrow> savename_paths adam_part a 0 0 = Inl e \<longrightarrow>
            minimize_with_adam adam_part a train_op loss st init_img = Inl e) \<and>
         (verbose a \<longrightarrow>
            savename_paths adam_part a 0 0 = Inr (d00, p00) \<longrightarrow>
            savename_paths adam_part a 0 5 = Inr (d05, p05) \<longrightarrow>
            savename_paths adam_part a 1 0 = Inr (d10, p10) \<longrightarrow>
            savename_paths adam_part a 1 5 = Inr (d15, p15) \<longrightarrow>
            (\<exists>st1. minimize_with_adam adam_part a train_op loss st init_img = Inr st1 \<and>
               net_input st1 = (train_op ^^ 20) init_img \<and>
               files (fsys st1) =
                 files (fsys st) @ [(p00, Image ((train_op ^^ 1) init_img)),
                                    (p05, Image ((train_op ^^ 6) init_img)),
                                    (p10, Image ((train_op ^^ 11) init_img)),
                                    (p15, Image ((train_op ^^ 16) init_img))] \<and>
               console st1 =
                 console st @ [(0, loss ((train_op ^^ 1) init_img)),
                               (5, loss ((train_op ^^ 6) init_img)),
                               (0, loss ((train_op ^^ 11) init_img)),
                               (5, loss ((train_op ^^ 16) init_img))])) \<and>
         (savename_paths adam_part a 2 0 = Inr (df, pf) \<longrightarrow>
            (\<exists>fs1. write_image_output adam_part a fs output_img content_image style_images = Inr fs1 \<and>
               files fs1 =
                 files fs @
                 [(pf, Image output_img), (os_path_join df ''0content.png'', Image content_image)] @
                 files (write_style_copies \<lparr>dirs = [], files = []\<rparr> df 0 style_images) @
                 [(os_path_join df ''meta_data.txt'', MetaData)]))"
proof (intro conjI impI)
  assume v: "\<not> verbose a"
  show "minimize_with_adam adam_part a train_op loss st init_img =
              Inr (st\<lparr>net_input := (train_op ^^ 20) init_img\<rparr>)"
    by (rule adam_run_quiet [OF v assms])
next
  assume v: "verbose a" and n: "savename_paths adam_part a 0 0 = Inl e"
  show "minimize_with_adam adam_part a train_op loss st init_img = Inl e"
    by (rule adam_run_naming_error [OF v assms n])
next
  assume v: "verbose a" and n: "savename_paths adam_part a 0 0 = Inr (d00, p00)"
    "savename_paths adam_part a 0 5 = Inr (d05, p05)"
    "savename_paths adam_part a 1 0 = Inr (d10, p10)"
    "savename_paths adam_part a 1 5 = Inr (d15, p15)"
  show "\<exists>st1. minimize_with_adam adam_part a train_op loss st init_img = Inr st1 \<and>
               net_input st1 = (train_op ^^ 20) init_img \<and>
               files (fsys st1) =
                 files (fsys st) @ [(p00, Image ((train_op ^^ 1) init_img)),
                                    (p05, Image ((train_op ^^ 6) init_img)),
                                    (p10, Image ((train_op ^^ 11) init_img)),
                                    (p15, Image ((train_op ^^ 16) init_img))] \<and>
               console st1 =
                 console st @ [(0, loss ((train_op ^^ 1) init_img)),
                               (5, loss ((train_op ^^ 6) init_img)),
                               (0, loss ((train_op ^^ 11) init_img)),
                               (5, loss ((train_op ^^ 16) init_img))]"
    by (rule adam_run_2_by_10_by_5 [OF v assms n])
next
  assume "savename_paths adam_part a 2 0 = Inr (df, pf)"
  then have "savename_paths adam_part a (blocks a) 0 = Inr (df, pf)"
    using assms(1) by simp
  then show "\<exists>fs1. write_image_output adam_part a fs output_img content_image style_images = Inr fs1 \<and>
               files fs1 =
                 files fs @
                 [(pf, Image output_img), (os_path_join df ''0content.png'', Image content_image)] @
                 files (write_style_copies \<lparr>dirs = [], files = []\<rparr> df 0 style_images) @
                 [(os_path_join df ''meta_data.txt'', MetaData)]"
    by (rule write_image_output_files)
qed

text \<open>
  The witness runs \<open>adam_args\<close>, the defaults with the Adam optimizer, 2 blocks of 10
  iterations and interval 5, once with the \<open>verbose\<close> flag and once without, the image
  being a counter of the update steps; the unparseable statement is taken to append the
  text \<open>(lr,b1,b2,eps)\<close>.
\<close>

theorem adam_checkpoints_when_verbose_witness:
  "blocks adam_args = 2 \<and> max_iterations adam_args = 10 \<and> print_iterations adam_args = 5 \<and>
   \<not> verbose adam_args \<and>
   minimize_with_adam (Inr ''(lr,b1,b2,eps)'') adam_args Suc real session0 0 =
     Inr (session0\<lparr>net_input := 20\<rparr>) \<and>
   (\<exists>st1. minimize_with_adam (Inr ''(lr,b1,b2,eps)'') (adam_args\<lparr>verbose := True\<rparr>) Suc real
            session0 0 = Inr st1 \<and>
          net_input st1 = 20 \<and>
          files (fsys st1) =
            [(''./image_output/lion.starry-night512A(lr,b1,b2,eps)2x10/iters/0.0.png'', Image 1),
             (''./image_output/lion.starry-night512A(lr,b1,b2,eps)2x10/iters/0.5.png'', Image 6),
             (''./image_output/lion.starry-night512A(lr,b1,b2,eps)2x10/iters/1.0.png'', Image 11),
             (''./image_output/lion.starry-night512A(lr,b1,b2,eps)2x10/iters/1.5.png'', Image 16)] \<and>
          map fst (console st1) = [0, 5, 0, 5]) \<and>
   minimize_with_adam (Inl (AttributeError ''beta2'')) (adam_args\<lparr>verbose := True\<rparr>) Suc real
     session0 0 = Inl (AttributeError ''beta2'')"
proof -
  let ?a = "adam_args\<lparr>verbose := True\<rparr>"
  let ?ap = "Inr ''(lr,b1,b2,eps)'' :: py_error + string"
  let ?d = "''./image_output/lion.starry-night512A(lr,b1,b2,eps)2x10/iters''"
  have h: "blocks adam_args = 2" "max_iterations adam_args = 10" "print_iterations adam_args = 5"
    "\<not> verbose adam_args"
    by (simp_all add: adam_args_def default_args_def)
  have hv: "blocks ?a = 2" "max_iterations ?a = 10" "print_iterations ?a = 5" "verbose ?a"
    by (simp_all add: adam_args_def default_args_def)
  have n: "savename_paths ?ap ?a 0 0 = Inr (?d, ?d @ ''/0.0.png'')"
    "savename_paths ?ap ?a 0 5 = Inr (?d, ?d @ ''/0.5.png'')"
    "savename_paths ?ap ?a 1 0 = Inr (?d, ?d @ ''/1.0.png'')"
    "savename_paths ?ap ?a 1 5 = Inr (?d, ?d @ ''/1.5.png'')"
    by (simp_all add: savename_paths_def adam_args_def default_args_def os_path_join_def
        drop_last4_def str_int_def str_nat.simps Let_def)
  have e: "savename_paths (Inl (AttributeError ''beta2'')) ?a 0 0 = Inl (AttributeError ''beta2'')"
    by (simp add: savename_paths_def adam_args_def default_args_def)
  have quiet: "minimize_with_adam ?ap adam_args Suc real session0 0 =
     Inr (session0\<lparr>net_input := (Suc ^^ 20) 0\<rparr>)"
    by (rule adam_checkpoints_when_verbose [OF h(1-3), where adam_part = ?ap and train_op = Suc
          and loss = real and st = session0 and init_img = 0, THEN conjunct1, THEN mp, OF h(4)])
  obtain st1 where st1: "minimize_with_adam ?ap ?a Suc real session0 0 = Inr st1"
    "net_input st1 = (Suc ^^ 20) 0"
    "files (fsys st1) =
       files (fsys session0) @ [(?d @ ''/0.0.png'', Image ((Suc ^^ 1) 0)),
                                (?d @ ''/0.5.png'', Image ((Suc ^^ 6) 0)),
                                (?d @ ''/1.0.png'', Image ((Suc ^^ 11) 0)),
                                (?d @ ''/1.5.png'', Image ((Suc ^^ 16) 0))]"
    "console st1 =
       console session0 @ [(0, real ((Suc ^^ 1) 0)), (5, real ((Suc ^^ 6) 0)),
                           (0, real ((Suc ^^ 11) 0)), (5, real ((Suc ^^ 16) 0))]"
    using adam_checkpoints_when_verbose [OF hv(1-3), where adam_part = ?ap and train_op = Suc
        and loss = real and st = session0 and init_img = 0 and ?d00.0 = ?d
        and ?p00.0 = "?d @ ''/0.0.png''" and ?d05.0 = ?d and ?p05.0 = "?d @ ''/0.5.png''"
        and ?d10.0 = ?d and ?p10.0 = "?d @ ''/1.0.png''" and ?d15.0 = ?d
        and ?p15.0 = "?d @ ''/1.5.png''", THEN conjunct2, THEN conjunct2, THEN conjunct1,
        THEN mp, THEN mp, THEN mp, THEN mp, THEN mp, OF hv(4) n]
    by (elim exE conjE) (rule that; assumption)
  have err: "minimize_with_adam (Inl (AttributeError ''beta2'')) ?a Suc real session0 0 =
     Inl (AttributeError ''beta2'')"
    by (rule adam_checkpoints_when_verbose [OF hv(1-3),
        where adam_part = "Inl (AttributeError ''beta2'')" and e = "AttributeError ''beta2''"
        and train_op = Suc and loss = real and st = session0 and init_img = 0,
        THEN conjunct2, THEN conjunct1, THEN mp, THEN mp, OF hv(4) e])
  have "\<exists>st1. minimize_with_adam ?ap ?a Suc real session0 0 = Inr st1 \<and>
          net_input st1 = 20 \<and>
          files (fsys st1) =
            [(?d @ ''/0.0.png'', Image 1), (?d @ ''/0.5.png'', Image 6),
             (?d @ ''/1.0.png'', Image 11), (?d @ ''/1.5.png'', Image 16)] \<and>
          map fst (console st1) = [0, 5, 0, 5]"
    using st1 by (simp add: session0_def)
  then show ?thesis
    using h quiet err by simp
qed

text \<open>
  Claim C7, as stated, fails: without the \<open>verbose\<close> flag (its default) the run of 2
  blocks of 10 iterations with interval 5 takes its 20 steps, evaluates no loss and writes
  no checkpoint.
\<close>

theorem adam_no_checkpoint_without_verbose:
  "verbose adam_args = False \<and> optimizer adam_args = adam \<and> blocks adam_args = 2 \<and>
   max_iterations adam_args = 10 \<and> print_iterations adam_args = 5 \<and>
   minimize_with_adam (Inr ''(lr,b1,b2,eps)'') adam_args Suc real session0 0 =
     Inr \<lparr>net_input = 20, fsys = \<lparr>dirs = [], files = []\<rparr>, console = []\<rparr>"
  by (simp add: minimize_with_adam_def adam_blocks.simps adam_iterations.simps
      adam_args_def default_args_def session0_def Let_def)

text \<open>
  Claim C5 says the final image is written at the top level of the output directory.
  \<open>write_image_output\<close> asks for the name with \<open>block = blocks\<close> and \<open>iteration = 0\<close>; the
  test \<^verbatim>\<open>block < args.blocks or iteration < args.max_iterations\<close> then holds whenever
  \<open>max_iterations\<close> is positive, and the final image, the copies of the inputs and the
  metadata file are written under \<open>iters\<close>. With the default configuration:
\<close>

theorem final_output_written_under_iters:
  "blocks default_args = 1 \<and> max_iterations default_args = 1000 \<and>
   write_image_output adam_part default_args \<lparr>dirs = [], files = []\<rparr> output_img content_image
       [style_image] =
     Inr \<lparr>dirs = [''./image_output/lion.starry-night512LBFGS1000/iters''],
          files =
            [(''./image_output/lion.starry-night512LBFGS1000/iters/1.0.png'', Image output_img),
             (''./image_output/lion.starry-night512LBFGS1000/iters/0content.png'', Image content_image),
             (''./image_output/lion.starry-night512LBFGS1000/iters/0_style.png'', Image style_image),
             (''./image_output/lion.starry-night512LBFGS1000/iters/meta_data.txt'', MetaData)]\<rparr>"
  by (simp add: write_image_output_def get_image_savename_def savename_paths_def
      maybe_make_directory_def write_image_def default_args_def os_path_join_def drop_last4_def
      str_int_def str_nat.simps Let_def)

lemma final_savename_under_iters:
  assumes "0 < max_iterations a" "savename_paths adam_part a (blocks a) 0 = Inr (out_dir, img_path)"
  shows "\<exists>base. out_dir = os_path_join base ''iters''"
  using assms
  by (auto simp: savename_paths_def Let_def split: sum.splits)

section \<open>Command-line parsing\<close>

text \<open>
  \<open>parse_args\<close> creates an \<^verbatim>\<open>argparse.ArgumentParser\<close>, declares 27 options by
  \<^verbatim>\<open>add_argument\<close>, parses the command line, normalises the three weight lists and
  makes the output directory:
  \<^verbatim>\<open>
  parser.add_argument('--beta1', type=float, default=0.9, help='First momentum ...')
  parser.add_argument('--beta1', type=float, default=0.999, help='Second momentum ...')
  ...
  args = parser.parse_args()
  args.style_layer_weights   = normalize(args.style_layer_weights)
  args.content_layer_weights = normalize(args.content_layer_weights)
  args.style_imgs_weights    = normalize(args.style_imgs_weights)
  maybe_make_directory(args.img_output_dir)
  return args
  \<close>
  The library's part is modelled as far as the program uses it. A parser is the list of
  its registered options, each with its option string, default and \<^verbatim>\<open>required\<close>
  flag; a new parser holds the help option. \<^verbatim>\<open>add_argument\<close> of an option string that
  is already registered raises \<^verbatim>\<open>ArgumentError\<close> (argparse's default
  \<^verbatim>\<open>conflict_handler='error'\<close>). The command line is the list of the options given,
  each with its converted value; \<open>parser_parse_args\<close> exits for help, for an unknown
  option and for a missing required one, and otherwise stores for every option the
  value given (the last one) or the default under the option's \<open>dest\<close>.
\<close>

datatype pyval =
    VNone
  | VBool bool
  | VInt int
  | VFloat real
  | VStr string
  | VStrs "string list"
  | VFloats "real list"
  | VSuppress

record argument =
  option_string :: string
  dflt :: pyval
  required :: bool

type_synonym namespace = "string \<rightharpoonup> pyval"

definition ArgumentParser :: "argument list" where
  "ArgumentParser =
     [\<lparr>option_string = ''-h'', dflt = VSuppress, required = False\<rparr>,
      \<lparr>option_string = ''--help'', dflt = VSuppress, required = False\<rparr>]"

definition add_argument :: "argument list \<Rightarrow> argument \<Rightarrow> py_error + argument list" where
  "add_argument parser arg =
     (if option_string arg \<in> set (map option_string parser)
      then Inl (ArgumentError (''argument '' @ option_string arg
                  @ '': conflicting option string: '' @ option_string arg))
      else Inr (parser @ [arg]))"

fun add_arguments :: "argument list \<Rightarrow> argument list \<Rightarrow> py_error + argument list" where
  "add_arguments parser [] = Inr parser"
| "add_arguments parser (arg # rest) =
     (case add_argument parser arg of
        Inl e \<Rightarrow> Inl e
      | Inr parser' \<Rightarrow> add_arguments parser' rest)"

definition parse_args_arguments :: "argument list" where
  "parse_args_arguments =
     [\<lparr>option_string = ''--verbose'', dflt = VBool False, required = False\<rparr>,
      \<lparr>option_string = ''--img_name'', dflt = VNone, required = False\<rparr>,
      \<lparr>option_string = ''--style_imgs'', dflt = VNone, required = True\<rparr>,
      \<lparr>option_string = ''--style_imgs_weights'', dflt = VFloats [1], required = False\<rparr>,
      \<lparr>option_string = ''--content_img'', dflt = VNone, required = False\<rparr>,
      \<lparr>option_string = ''--style_imgs_dir'', dflt = VStr ''./styles'', required = False\<rparr>,
      \<lparr>option_string = ''--content_img_dir'', dflt = VStr ''./image_input'', required = False\<rparr>,
      \<lparr>option_string = ''--max_size'', dflt = VInt 512, required = False\<rparr>,
      \<lparr>option_string = ''--content_weight'', dflt = VFloat 5, required = False\<rparr>,
      \<lparr>option_string = ''--style_weight'', dflt = VFloat 10000,
         required = False\<rparr>,
      \<lparr>option_string = ''--tv_weight'', dflt = VFloat (1 / 1000),
         required = False\<rparr>,
      \<lparr>option_string = ''--content_layers'', dflt = VStrs [''conv4_2''], required = False\<rparr>,
      \<lparr>option_string = ''--style_layers'',
         dflt = VStrs [''relu1_1'', ''relu2_1'', ''relu3_1'', ''relu4_1'', ''relu5_1''],
         required = False\<rparr>,
      \<lparr>option_string = ''--content_layer_weights'', dflt = VFloats [1], required = False\<rparr>,
      \<lparr>option_string = ''--style_layer_weights'',
         dflt = VFloats [2 / 10, 2 / 10, 2 / 10, 2 / 10, 2 / 10], required = False\<rparr>,
      \<lparr>option_string = ''--seed'', dflt = VInt 0, required = False\<rparr>,
      \<lparr>option_string = ''--model_weights'', dflt = VStr ''imagenet-vgg-verydeep-19.mat'',
         required = False\<rparr>,
      \<lparr>option_string = ''--device'', dflt = VStr ''/gpu:0'', required = False\<rparr>,
      \<lparr>option_string = ''--img_output_dir'', dflt = VStr ''./image_output'', required = False\<rparr>,
      \<lparr>option_string = ''--optimizer'', dflt = VStr ''lbfgs'', required = False\<rparr>,
      \<lparr>option_string = ''--learning_rate'', dflt = VFloat 10,
         required = False\<rparr>,
      \<lparr>option_string = ''--beta1'', dflt = VFloat (9 / 10), required = False\<rparr>,
      \<lparr>option_string = ''--beta1'', dflt = VFloat (999 / 1000),
         required = False\<rparr>,
      \<lparr>option_string = ''--epsilon'', dflt = VFloat (1 / 100000000),
         required = False\<rparr>,
      \<lparr>option_string = ''--blocks'', dflt = VInt 1, required = False\<rparr>,
      \<lparr>option_string = ''--max_iterations'', dflt = VInt 1000, required = False\<rparr>,
      \<lparr>option_string = ''--print_iterations'', dflt = VInt 50, required = False\<rparr>]"

definition dest_of :: "string \<Rightarrow> string" where
  "dest_of s = dropWhile (\<lambda>c. c = CHR ''-'') s"

definition store_argument :: "(string \<times> pyval) list \<Rightarrow> argument \<Rightarrow> namespace \<Rightarrow> namespace" where
  "store_argument supplied arg ns =
     (case (case map_of (rev supplied) (option_string arg) of
              Some v \<Rightarrow> v
            | None \<Rightarrow> dflt arg) of
        VSuppress \<Rightarrow> ns
      | v \<Rightarrow> ns(dest_of (option_string arg) \<mapsto> v))"

definition parser_parse_args ::
  "argument list \<Rightarrow> (string \<times> pyval) list \<Rightarrow> py_error + namespace" where
  "parser_parse_args parser supplied =
     (if list_ex (\<lambda>(f, v). f = ''-h'' \<or> f = ''--help'') supplied then Inl (SystemExit 0)
      else if list_ex (\<lambda>(f, v). f \<notin> set (map option_string parser)) supplied
      then Inl (SystemExit 2)
      else if list_ex (\<lambda>arg. required arg \<and> option_string arg \<notin> set (map fst supplied)) parser
      then Inl (SystemExit 2)
      else Inr (fold (store_argument supplied) parser Map.empty))"

definition normalize_attr :: "string \<Rightarrow> namespace \<Rightarrow> py_error + namespace" where
  "normalize_attr key ns =
     (case ns key of
        None \<Rightarrow> Inl (AttributeError key)
      | Some (VFloats ws) \<Rightarrow> Inr (ns(key \<mapsto> VFloats (normalize_weights ws)))
      | Some _ \<Rightarrow> Inl TypeError)"

definition parse_args ::
  "'img filesys \<Rightarrow> (string \<times> pyval) list \<Rightarrow> py_error + 'img filesys \<times> namespace" where
  "parse_args fs supplied =
     (case add_arguments ArgumentParser parse_args_arguments of
        Inl e \<Rightarrow> Inl e
      | Inr parser \<Rightarrow>
         (case parser_parse_args parser supplied of
            Inl e \<Rightarrow> Inl e
          | Inr ns0 \<Rightarrow>
             (case normalize_attr ''style_layer_weights'' ns0 of
                Inl e \<Rightarrow> Inl e
              | Inr ns1 \<Rightarrow>
                 (case normalize_attr ''content_layer_weights'' ns1 of
                    Inl e \<Rightarrow> Inl e
                  | Inr ns2 \<Rightarrow>
                     (case normalize_attr ''style_imgs_weights'' ns2 of
                        Inl e \<Rightarrow> Inl e
                      | Inr ns3 \<Rightarrow>
                         (case ns3 ''img_output_dir'' of
                            Some (VStr d) \<Rightarrow> Inr (maybe_make_directory fs d, ns3)
                          | Some _ \<Rightarrow> Inl TypeError
                          | None \<Rightarrow> Inl (AttributeError ''img_output_dir'')))))))"

lemma add_arguments_conflict:
  "add_arguments ArgumentParser parse_args_arguments =
   Inl (ArgumentError ''argument --beta1: conflicting option string: --beta1'')"
  by (simp add: ArgumentParser_def parse_args_arguments_def add_argument_def)

text \<open>
  Claim C9 says that parsing completes with a single parameter \<open>beta1\<close> of value 0.999,
  which the optimizer construction then uses. The code does neither. The two
  declarations of \<open>--beta1\<close> carry the defaults 0.9 and 0.999 (the help text of the second
  says "Second momentum parameter"), and the second one is rejected with a
  conflicting-option error while the parser is built, whatever the command line, so
  \<open>parse_args\<close> never completes. No declaration provides \<open>beta2\<close>, which \<open>get_optimizer\<close>
  reads: for the Adam optimizer without it, \<open>get_optimizer\<close> raises
  \<^verbatim>\<open>AttributeError\<close> and the run ends there.
\<close>

theorem parse_args_conflicting_beta1:
  "parse_args fs supplied =
     Inl (ArgumentError ''argument --beta1: conflicting option string: --beta1'') \<and>
   map dflt (filter (\<lambda>d. option_string d = ''--beta1'') parse_args_arguments) =
     [VFloat (9 / 10), VFloat (999 / 1000)] \<and>
   filter (\<lambda>d. option_string d = ''--beta2'') parse_args_arguments = [] \<and>
   get_optimizer (a\<lparr>optimizer := adam, beta2 := None\<rparr>) = Inl (AttributeError ''beta2'') \<and>
   stylize_run adam_part (a\<lparr>optimizer := adam, beta2 := None\<rparr>) step L_total st content_image
     style_images init_img = Inl (AttributeError ''beta2'')"
  by (simp add: parse_args_def add_arguments_conflict get_optimizer_def stylize_run_def)
     (simp add: parse_args_arguments_def)

text \<open>
  With no momentum-decay flag on the command line, parsing does not complete.
\<close>

lemma parse_args_does_not_complete:
  "parse_args \<lparr>dirs = [], files = [] :: (string \<times> nat) list\<rparr>
     [(''--style_imgs'', VStrs [''starry-night.jpg'']), (''--content_img'', VStr ''lion.jpg'')] =
   Inl (ArgumentError ''argument --beta1: conflicting option string: --beta1'')"
  by (simp add: parse_args_def add_arguments_conflict)

section \<open>Aggregate losses\<close>

text \<open>
  \<^verbatim>\<open>
  def sum_content_losses(sess, net, content_img):
    sess.run(net['input'].assign(content_img))
    content_loss = 0.
    for layer, weight in zip(args.content_layers, args.content_layer_weights):
      p = sess.run(net[layer])
      x = net[layer]
      p = tf.convert_to_tensor(p)
      content_loss += content_layer_loss(p, x) * weight
    content_loss /= float(len(args.content_layers))
    return content_loss

  def sum_style_losses(sess, net, style_imgs):
    total_style_loss = 0.
    weights = args.style_imgs_weights
    for img, img_weight in zip(style_imgs, weights):
      sess.run(net['input'].assign(img))
      style_loss = 0.
      for layer, weight in zip(args.style_layers, args.style_layer_weights):
        a = sess.run(net[layer])
        x = net[layer]
        a = tf.convert_to_tensor(a)
        style_loss += style_layer_loss(a, x) * weight
      style_loss /= float(len(args.style_layers))
      total_style_loss += (style_loss * img_weight)
    total_style_loss /= float(len(style_imgs))
    return total_style_loss
  \<close>
  The network is a parameter: \<open>net img layer\<close> is the activation of the layer \<open>layer\<close>
  when \<^verbatim>\<open>net['input']\<close> holds \<open>img\<close>, and \<open>None\<close> when the dictionary has no such key.
  The result is the value of the loss at the image \<open>x\<close>. A division of the Python
  float \<^verbatim>\<open>0.\<close> by \<^verbatim>\<open>float(0)\<close> raises \<^verbatim>\<open>ZeroDivisionError\<close>.
  \<open>toy_net\<close> is a network of one layer with one element, used for concrete runs.
\<close>

fun content_loss_loop ::
  "('img \<Rightarrow> string \<rightharpoonup> tensor) \<Rightarrow> 'img \<Rightarrow> 'img \<Rightarrow> (string \<times> real) list \<Rightarrow> real
   \<Rightarrow> py_error + real" where
  "content_loss_loop net content_image x [] content_loss = Inr content_loss"
| "content_loss_loop net content_image x ((layer, weight) # rest) content_loss =
     (case net content_image layer of
        None \<Rightarrow> Inl (KeyError layer)
      | Some p \<Rightarrow>
         (case net x layer of
            None \<Rightarrow> Inl (KeyError layer)
          | Some xa \<Rightarrow>
             (case content_layer_loss p xa of
                Inl e \<Rightarrow> Inl e
              | Inr l \<Rightarrow>
                 content_loss_loop net content_image x rest (content_loss + l * weight))))"

definition sum_content_losses ::
  "('img \<Rightarrow> string \<rightharpoonup> tensor) \<Rightarrow> args \<Rightarrow> 'img \<Rightarrow> 'img \<Rightarrow> py_error + real" where
  "sum_content_losses net a content_image x =
     (case content_loss_loop net content_image x
             (zip (content_layers a) (content_layer_weights a)) 0 of
        Inl e \<Rightarrow> Inl e
      | Inr content_loss \<Rightarrow>
         if length (content_layers a) = 0 then Inl ZeroDivisionError
         else Inr (content_loss / real (length (content_layers a))))"

fun style_layer_loop ::
  "('img \<Rightarrow> string \<rightharpoonup> tensor) \<Rightarrow> 'img \<Rightarrow> 'img \<Rightarrow> (string \<times> real) list \<Rightarrow> real
   \<Rightarrow> py_error + real" where
  "style_layer_loop net img x [] style_loss = Inr style_loss"
| "style_layer_loop net img x ((layer, weight) # rest) style_loss =
     (case net img layer of
        None \<Rightarrow> Inl (KeyError layer)
      | Some a \<Rightarrow>
         (case net x layer of
            None \<Rightarrow> Inl (KeyError layer)
          | Some xa \<Rightarrow>
             (case style_layer_loss a xa of
                Inl e \<Rightarrow> Inl e
              | Inr l \<Rightarrow> style_layer_loop net img x rest (style_loss + l * weight))))"

fun style_image_loop ::
  "('img \<Rightarrow> string \<rightharpoonup> tensor) \<Rightarrow> args \<Rightarrow> 'img \<Rightarrow> ('img \<times> real) list \<Rightarrow> real
   \<Rightarrow> py_error + real" where
  "style_image_loop net a x [] total_style_loss = Inr total_style_loss"
| "style_image_loop net a x ((img, img_weight) # rest) total_style_loss =
     (case style_layer_loop net img x (zip (style_layers a) (style_layer_weights a)) 0 of
        Inl e \<Rightarrow> Inl e
      | Inr style_loss \<Rightarrow>
         if length (style_layers a) = 0 then Inl ZeroDivisionError
         else style_image_loop net a x rest
                (total_style_loss + style_loss / real (length (style_layers a)) * img_weight))"

definition sum_style_losses ::
  "('img \<Rightarrow> string \<rightharpoonup> tensor) \<Rightarrow> args \<Rightarrow> 'img list \<Rightarrow> 'img \<Rightarrow> py_error + real" where
  "sum_style_losses net a style_images x =
     (case style_image_loop net a x (zip style_images (style_imgs_weights a)) 0 of
        Inl e \<Rightarrow> Inl e
      | Inr total_style_loss \<Rightarrow>
         if length style_images = 0 then Inl ZeroDivisionError
         else Inr (total_style_loss / real (length style_images)))"

definition toy_net :: "nat \<Rightarrow> string \<rightharpoonup> tensor" where
  "toy_net img = [''conv4_2'' \<mapsto> \<lparr>th = 1, tw = 1, td = 1, tdata = [real img]\<rparr>]"

definition mismatched_args :: args where
  "mismatched_args =
     default_args\<lparr>content_layers := [''conv4_2'', ''conv5_2''], content_layer_weights := [1],
                  style_layers := [''conv4_2'', ''relu9_9''], style_layer_weights := [1],
                  style_imgs_weights := [1]\<rparr>"

lemma content_loss_loop_sum:
  assumes "\<forall>i<min (length ls) (length ws).
             \<exists>p xa. net c (ls ! i) = Some p \<and> net x (ls ! i) = Some xa \<and>
                    content_layer_loss p xa = Inr (L i)"
  shows "content_loss_loop net c x (zip ls ws) acc =
         Inr (acc + (\<Sum>i<min (length ls) (length ws). L i * ws ! i))"
  using assms
proof (induction ls arbitrary: ws acc L)
  case Nil
  then show ?case by simp
next
  case (Cons l ls)
  show ?case
  proof (cases ws)
    case Nil
    then show ?thesis by simp
  next
    case (Cons w ws')
    have hd: "\<exists>p xa. net c l = Some p \<and> net x l = Some xa \<and> content_layer_loss p xa = Inr (L 0)"
      using Cons.prems Cons by force
    have tl: "\<forall>i<min (length ls) (length ws').
                \<exists>p xa. net c (ls ! i) = Some p \<and> net x (ls ! i) = Some xa \<and>
                       content_layer_loss p xa = Inr (L (Suc i))"
      using Cons.prems Cons by force
    show ?thesis
      using hd Cons.IH [OF tl, of "acc + L 0 * w"] Cons
      by (auto simp: sum.lessThan_Suc_shift simp del: sum.lessThan_Suc)
  qed
qed

lemma style_layer_loop_sum:
  assumes "\<forall>i<min (length ls) (length ws).
             \<exists>a xa. net img (ls ! i) = Some a \<and> net x (ls ! i) = Some xa \<and>
                    style_layer_loss a xa = Inr (S i)"
  shows "style_layer_loop net img x (zip ls ws) acc =
         Inr (acc + (\<Sum>i<min (length ls) (length ws). S i * ws ! i))"
  using assms
proof (induction ls arbitrary: ws acc S)
  case Nil
  then show ?case by simp
next
  case (Cons l ls)
  show ?case
  proof (cases ws)
    case Nil
    then show ?thesis by simp
  next
    case (Cons w ws')
    have hd: "\<exists>a xa. net img l = Some a \<and> net x l = Some xa \<and> style_layer_loss a xa = Inr (S 0)"
      using Cons.prems Cons by force
    have tl: "\<forall>i<min (length ls) (length ws').
                \<exists>a xa. net img (ls ! i) = Some a \<and> net x (ls ! i) = Some xa \<and>
                       style_layer_loss a xa = Inr (S (Suc i))"
      using Cons.prems Cons by force
    show ?thesis
      using hd Cons.IH [OF tl, of "acc + S 0 * w"] Cons
      by (auto simp: sum.lessThan_Suc_shift simp del: sum.lessThan_Suc)
  qed
qed

lemma style_image_loop_sum:
  assumes "style_layers a \<noteq> []"
    and "\<forall>j<min (length imgs) (length iws).
           style_layer_loop net (imgs ! j) x (zip (style_layers a) (style_layer_weights a)) 0 =
           Inr (T j)"
  shows "style_image_loop net a x (zip imgs iws) acc =
         Inr (acc + (\<Sum>j<min (length imgs) (length iws).
                       T j / real (length (style_layers a)) * iws ! j))"
  using assms(2)
proof (induction imgs arbitrary: iws acc T)
  case Nil
  then show ?case by simp
next
  case (Cons img imgs)
  show ?case
  proof (cases iws)
    case Nil
    then show ?thesis by simp
  next
    case (Cons w iws')
    have hd: "style_layer_loop net img x (zip (style_layers a) (style_layer_weights a)) 0 = Inr (T 0)"
      using Cons.prems Cons by force
    have tl: "\<forall>j<min (length imgs) (length iws').
           style_layer_loop net (imgs ! j) x (zip (style_layers a) (style_layer_weights a)) 0 =
           Inr (T (Suc j))"
      using Cons.prems Cons by force
    show ?thesis
      using hd assms(1)
        Cons.IH [OF tl, of "acc + T 0 / real (length (style_layers a)) * w"] Cons
      by (auto simp: sum.lessThan_Suc_shift simp del: sum.lessThan_Suc)
  qed
qed

text \<open>
  Claim C6, as amended. No length is checked: normalisation keeps the length of a weight
  list, and the aggregate losses pair names with weights, and style images with image
  weights, by \<^verbatim>\<open>zip\<close>. When the lists of names and of style images are not empty
  and the loss of every paired layer is computed (\<open>L i\<close> for the \<open>i\<close>-th content layer,
  \<open>S j i\<close> for the \<open>i\<close>-th style layer on the \<open>j\<close>-th style image), both aggregate losses
  return a value whatever the lengths are: the weighted sum runs over the common prefix
  of the two lists only, and the divisor is the full number of layer names, and of style
  images.
\<close>

theorem mismatched_lengths_use_common_prefix:
  assumes "content_layers a \<noteq> []" "style_layers a \<noteq> []" "imgs \<noteq> []"
    and "\<forall>i<min (length (content_layers a)) (length (content_layer_weights a)).
           \<exists>p xa. net c (content_layers a ! i) = Some p \<and> net x (content_layers a ! i) = Some xa \<and>
                  content_layer_loss p xa = Inr (L i)"
    and "\<forall>j<min (length imgs) (length (style_imgs_weights a)).
         \<forall>i<min (length (style_layers a)) (length (style_layer_weights a)).
           \<exists>r xa. net (imgs ! j) (style_layers a ! i) = Some r \<and>
                  net x (style_layers a ! i) = Some xa \<and> style_layer_loss r xa = Inr (S j i)"
  shows "length (normalize_weights ws) = length ws \<and>
     sum_content_losses net a c x =
       Inr ((\<Sum>i<min (length (content_layers a)) (length (content_layer_weights a)).
               L i * content_layer_weights a ! i) / real (length (content_layers a))) \<and>
     sum_style_losses net a imgs x =
       Inr ((\<Sum>j<min (length imgs) (length (style_imgs_weights a)).
               (\<Sum>i<min (length (style_layers a)) (length (style_layer_weights a)).
                   S j i * style_layer_weights a ! i) / real (length (style_layers a))
               * style_imgs_weights a ! j) / real (length imgs))"
proof -
  have len: "length (normalize_weights ws) = length ws"
    by (simp add: normalize_weights_def Let_def)
  have content: "sum_content_losses net a c x =
       Inr ((\<Sum>i<min (length (content_layers a)) (length (content_layer_weights a)).
               L i * content_layer_weights a ! i) / real (length (content_layers a)))"
    using assms(1) content_loss_loop_sum [OF assms(4), of 0]
    by (simp add: sum_content_losses_def)
  have inner: "\<forall>j<min (length imgs) (length (style_imgs_weights a)).
      style_layer_loop net (imgs ! j) x (zip (style_layers a) (style_layer_weights a)) 0 =
      Inr (\<Sum>i<min (length (style_layers a)) (length (style_layer_weights a)).
              S j i * style_layer_weights a ! i)"
  proof (intro allI impI)
    fix j assume j: "j < min (length imgs) (length (style_imgs_weights a))"
    have "\<forall>i<min (length (style_layers a)) (length (style_layer_weights a)).
           \<exists>r xa. net (imgs ! j) (style_layers a ! i) = Some r \<and>
                  net x (style_layers a ! i) = Some xa \<and> style_layer_loss r xa = Inr (S j i)"
      using assms(5) j by blast
    from style_layer_loop_sum [OF this, of 0]
    show "style_layer_loop net (imgs ! j) x (zip (style_layers a) (style_layer_weights a)) 0 =
      Inr (\<Sum>i<min (length (style_layers a)) (length (style_layer_weights a)).
              S j i * style_layer_weights a ! i)"
      by simp
  qed
  have style: "sum_style_losses net a imgs x =
       Inr ((\<Sum>j<min (length imgs) (length (style_imgs_weights a)).
               (\<Sum>i<min (length (style_layers a)) (length (style_layer_weights a)).
                   S j i * style_layer_weights a ! i) / real (length (style_layers a))
               * style_imgs_weights a ! j) / real (length imgs))"
    using assms(3) style_image_loop_sum [OF assms(2) inner, of 0]
    by (simp add: sum_style_losses_def)
  show ?thesis using len content style by blast
qed

text \<open>
  A configuration with two content layers, two style layers and two style images, and
  one weight each: the second names are not layers of \<open>toy_net\<close> and are never looked
  up, the second image is never used, and both divisors are 2.
\<close>

theorem mismatched_lengths_use_common_prefix_witness:
  "length (content_layers mismatched_args) = 2 \<and> length (content_layer_weights mismatched_args) = 1 \<and>
   length (style_layers mismatched_args) = 2 \<and> length (style_layer_weights mismatched_args) = 1 \<and>
   length [7, 8 :: nat] = 2 \<and> length (style_imgs_weights mismatched_args) = 1 \<and>
   sum_content_losses toy_net mismatched_args 3 5 = Inr 1 \<and>
   sum_style_losses toy_net mismatched_args [7, 8] 5 = Inr 36"
proof -
  have c: "content_layers mismatched_args \<noteq> []" "style_layers mismatched_args \<noteq> []"
    "[7, 8 :: nat] \<noteq> []"
    by (simp_all add: mismatched_args_def)
  have cl: "\<forall>i<min (length (content_layers mismatched_args))
                    (length (content_layer_weights mismatched_args)).
           \<exists>p xa. toy_net 3 (content_layers mismatched_args ! i) = Some p \<and>
                  toy_net 5 (content_layers mismatched_args ! i) = Some xa \<and>
                  content_layer_loss p xa = Inr ((\<lambda>i. 2) i)"
    by (simp add: mismatched_args_def toy_net_def content_layer_loss_def get_shape_def
        tf_sub_def tf_pow2_def tf_reduce_sum_def)
  have sl: "\<forall>j<min (length [7, 8 :: nat]) (length (style_imgs_weights mismatched_args)).
         \<forall>i<min (length (style_layers mismatched_args)) (length (style_layer_weights mismatched_args)).
           \<exists>r xa. toy_net ([7, 8] ! j) (style_layers mismatched_args ! i) = Some r \<and>
                  toy_net 5 (style_layers mismatched_args ! i) = Some xa \<and>
                  style_layer_loss r xa = Inr ((\<lambda>j i. 144) j i)"
    by (simp add: mismatched_args_def toy_net_def style_layer_loss_def get_shape_def
        gram_matrix_def tf_reshape_def tf_matmul_def tf_transpose_def m_sub_def m_pow2_def
        m_reduce_sum_def)
  have l: "length (content_layers mismatched_args) = 2"
    "length (content_layer_weights mismatched_args) = 1"
    "length (style_layers mismatched_args) = 2" "length (style_layer_weights mismatched_args) = 1"
    "length (style_imgs_weights mismatched_args) = 1"
    by (simp_all add: mismatched_args_def)
  have "sum_content_losses toy_net mismatched_args 3 5 = Inr 1"
    "sum_style_losses toy_net mismatched_args [7, 8] 5 = Inr 36"
    using mismatched_lengths_use_common_prefix [OF c cl sl] l
    by (simp_all add: mismatched_args_def)
  then show ?thesis using l by simp
qed

text \<open>
  Claim C6, as stated, fails: two content layers with one weight are not rejected; the
  loss is computed from the first layer alone (the second is not even a layer of the
  network) and divided by 2.
\<close>

theorem mismatched_lengths_not_rejected:
  "length [''conv4_2'', ''conv5_2''] \<noteq> length (normalize_weights [1]) \<and>
   sum_content_losses toy_net
     (default_args\<lparr>content_layers := [''conv4_2'', ''conv5_2''],
                   content_layer_weights := normalize_weights [1]\<rparr>) 3 5 = Inr 1"
  by (simp add: sum_content_losses_def content_layer_loss_def get_shape_def tf_sub_def
      tf_pow2_def tf_reduce_sum_def toy_net_def normalize_weights_def default_args_def)

section \<open>Image pre- and postprocessing\<close>

text \<open>
  \<^verbatim>\<open>
  def preprocess(img):
    imgpre = np.copy(img)
    # bgr to rgb
    imgpre = imgpre[...,::-1]
    # shape (h, w, d) to (1, h, w, d)
    imgpre = imgpre[np.newaxis,:,:,:]
    imgpre -= np.array([123.68, 116.779, 103.939]).reshape((1,1,1,3))
    return imgpre

  def postprocess(img):
    imgpost = np.copy(img)
    imgpost += np.array([123.68, 116.779, 103.939]).reshape((1,1,1,3))
    # shape (1, h, w, d) to (h, w, d)
    imgpost = imgpost[0]
    imgpost = np.clip(imgpost, 0, 255).astype('uint8')
    # rgb to bgr
    imgpost = imgpost[...,::-1]
    return imgpost
  \<close>
  numpy arrays share memory, so the model has a store: a heap maps addresses to buffers,
  a buffer being the pixels of an image in row-major order, each pixel the list of its
  channel values. An array is a view of a buffer: its address, the number \<open>lead\<close> of
  leading axes of size 1, its height, width and channels, and whether the channel axis
  is reversed (\<^verbatim>\<open>[...,::-1]\<close>). \<open>contents\<close> are the pixels as the array shows them.
  \<^verbatim>\<open>np.copy\<close>, \<^verbatim>\<open>np.clip\<close> and \<^verbatim>\<open>astype\<close> allocate a new buffer; reversing the
  channels, adding a leading axis (\<^verbatim>\<open>[np.newaxis,:,:,:]\<close>) and indexing with \<^verbatim>\<open>[0]\<close>
  make a view of the same buffer; \<^verbatim>\<open>-=\<close> and \<^verbatim>\<open>+=\<close> write the buffer of their left
  operand through its view. The in-place operation with the mean of shape
  \<open>(1, 1, 1, 3)\<close> needs a float array with at least one leading axis and 3 channels.

  The image arrays are float32 (\<^verbatim>\<open>img.astype(np.float32)\<close> in the readers). numpy
  computes \<^verbatim>\<open>-=\<close> and \<^verbatim>\<open>+=\<close> with the float64 mean in float64 and rounds every
  value it stores to float32; the model computes the difference or sum exactly and
  rounds it with \<open>float32\<close>: to the nearest multiple of the spacing of float32 numbers at
  that magnitude (24 significant bits, exponent at least \<open>-126\<close>), ties to the even
  multiple. The rounding of the float64 intermediate and values beyond the range of
  float32 are not modelled. The conversion to \<^verbatim>\<open>uint8\<close> truncates towards zero.
  \<open>roundtrip\<close> is \<open>preprocess\<close>, then \<open>postprocess\<close>, then the contents of the result.
  \<open>heap0\<close> and \<open>img0\<close> are a store with one image of two pixels, for concrete runs.
\<close>

definition f32_exponent :: "real \<Rightarrow> int" where
  "f32_exponent v = max (bitlen \<lfloor>\<bar>v\<bar> * 2 ^ 149\<rfloor> - 150) (- 126)"

definition f32_quantum :: "real \<Rightarrow> real" where
  "f32_quantum v =
     (let e = f32_exponent v
      in if 23 \<le> e then 2 ^ nat (e - 23) else 1 / 2 ^ nat (23 - e))"

definition round_half_even :: "real \<Rightarrow> int" where
  "round_half_even k =
     (let r = \<lfloor>k\<rfloor>; fr = k - of_int r
      in if 1 / 2 < fr \<or> (fr = 1 / 2 \<and> odd r) then r + 1 else r)"

definition float32 :: "real \<Rightarrow> real" where
  "float32 v =
     (if v = 0 then 0 else of_int (round_half_even (v / f32_quantum v)) * f32_quantum v)"

datatype buffer = F32 "real list list" | U8 "nat list list"

record heap =
  next_addr :: nat
  cells :: "nat \<Rightarrow> buffer"

record ndarray =
  base :: nat
  lead :: nat
  hgt :: nat
  wid :: nat
  chan :: nat
  rev_ch :: bool

definition alloc :: "heap \<Rightarrow> buffer \<Rightarrow> heap \<times> nat" where
  "alloc h buf = (h\<lparr>next_addr := next_addr h + 1, cells := (cells h)(next_addr h := buf)\<rparr>, next_addr h)"

definition view_px :: "bool \<Rightarrow> 'a list \<Rightarrow> 'a list" where
  "view_px r px = (if r then rev px else px)"

definition contents :: "heap \<Rightarrow> ndarray \<Rightarrow> buffer" where
  "contents h a =
     (case cells h (base a) of
        F32 pxs \<Rightarrow> F32 (map (view_px (rev_ch a)) pxs)
      | U8 pxs \<Rightarrow> U8 (map (view_px (rev_ch a)) pxs))"

definition np_copy :: "heap \<Rightarrow> ndarray \<Rightarrow> heap \<times> ndarray" where
  "np_copy h a = (case alloc h (contents h a) of (h', addr) \<Rightarrow> (h', a\<lparr>base := addr, rev_ch := False\<rparr>))"

definition reverse_channels :: "ndarray \<Rightarrow> ndarray" where
  "reverse_channels a = a\<lparr>rev_ch := \<not> rev_ch a\<rparr>"

definition mean_pixel :: "real list" where
  "mean_pixel = [12368 / 100, 116779 / 1000, 103939 / 1000]"

definition inplace_mean ::
  "(real \<Rightarrow> real \<Rightarrow> real) \<Rightarrow> heap \<Rightarrow> ndarray \<Rightarrow> heap \<times> (py_error + unit)" where
  "inplace_mean f h a =
     (case cells h (base a) of
        U8 pxs \<Rightarrow> (h, Inl TypeError)
      | F32 pxs \<Rightarrow>
         if lead a = 0 \<or> chan a \<noteq> 3 then (h, Inl ValueError)
         else (h\<lparr>cells := (cells h)(base a :=
                  F32 (map (\<lambda>px. view_px (rev_ch a)
                                  (map2 (\<lambda>v m. float32 (f v m)) (view_px (rev_ch a) px) mean_pixel))
                         pxs))\<rparr>,
               Inr ()))"

definition preprocess :: "heap \<Rightarrow> ndarray \<Rightarrow> heap \<times> (py_error + ndarray)" where
  "preprocess h img =
     (case np_copy h img of (h1, imgpre0) \<Rightarrow>
        let imgpre1 = reverse_channels imgpre0;
            imgpre2 = imgpre1\<lparr>lead := lead imgpre1 + 1\<rparr>
        in (case inplace_mean (-) h1 imgpre2 of
              (h2, Inl e) \<Rightarrow> (h2, Inl e)
            | (h2, Inr _) \<Rightarrow> (h2, Inr imgpre2)))"

definition np_clip :: "heap \<Rightarrow> ndarray \<Rightarrow> real \<Rightarrow> real \<Rightarrow> heap \<times> ndarray" where
  "np_clip h a lo hi =
     (case alloc h (case contents h a of
                      F32 pxs \<Rightarrow> F32 (map (map (\<lambda>v. min (max v lo) hi)) pxs)
                    | U8 pxs \<Rightarrow> U8 (map (map (\<lambda>v. nat (min (max (int v) \<lfloor>lo\<rfloor>) \<lfloor>hi\<rfloor>))) pxs)) of
        (h', addr) \<Rightarrow> (h', a\<lparr>base := addr, rev_ch := False\<rparr>))"

definition trunc_int :: "real \<Rightarrow> int" where
  "trunc_int v = (if 0 \<le> v then \<lfloor>v\<rfloor> else \<lceil>v\<rceil>)"

definition astype_uint8 :: "heap \<Rightarrow> ndarray \<Rightarrow> heap \<times> ndarray" where
  "astype_uint8 h a =
     (case alloc h (case contents h a of
                      F32 pxs \<Rightarrow> U8 (map (map (\<lambda>v. nat (trunc_int v mod 256))) pxs)
                    | U8 pxs \<Rightarrow> U8 pxs) of
        (h', addr) \<Rightarrow> (h', a\<lparr>base := addr, rev_ch := False\<rparr>))"

definition postprocess :: "heap \<Rightarrow> ndarray \<Rightarrow> heap \<times> (py_error + ndarray)" where
  "postprocess h img =
     (case np_copy h img of (h1, imgpost0) \<Rightarrow>
        (case inplace_mean (+) h1 imgpost0 of
           (h2, Inl e) \<Rightarrow> (h2, Inl e)
         | (h2, Inr _) \<Rightarrow>
            (let imgpost1 = imgpost0\<lparr>lead := lead imgpost0 - 1\<rparr>
             in (case np_clip h2 imgpost1 0 255 of (h3, imgpost2) \<Rightarrow>
                  (case astype_uint8 h3 imgpost2 of (h4, imgpost3) \<Rightarrow>
                     (h4, Inr (reverse_channels imgpost3)))))))"

definition roundtrip :: "heap \<Rightarrow> ndarray \<Rightarrow> py_error + buffer" where
  "roundtrip h img =
     (case preprocess h img of
        (h1, Inl e) \<Rightarrow> Inl e
      | (h1, Inr pre) \<Rightarrow>
         (case postprocess h1 pre of
            (h2, Inl e) \<Rightarrow> Inl e
          | (h2, Inr post) \<Rightarrow> Inr (contents h2 post)))"

text \<open>
  \<open>roundtrip_close out v\<close>: the value \<open>out\<close> returned for the value \<open>v\<close> lies between
  \<open>v - 1\<close> and \<open>v\<close>, up to \<open>1 / 32768\<close> on either side (each of the two stores is rounded
  by at most \<open>1 / 65536\<close>); for an integer \<open>v\<close> it is \<open>v\<close> or \<open>v - 1\<close>.
\<close>

definition roundtrip_close :: "nat \<Rightarrow> real \<Rightarrow> bool" where
  "roundtrip_close out v \<longleftrightarrow>
     v - 1 - 1 / 32768 < real out \<and> real out \<le> v + 1 / 32768 \<and>
     (of_int \<lfloor>v\<rfloor> = v \<longrightarrow> real out = v \<or> real out = v - 1)"

definition heap0 :: heap where
  "heap0 = \<lparr>next_addr = 1, cells = (\<lambda>_. F32 [])(0 := F32 [[0, 128, 255], [10, 20.5, 30]])\<rparr>"

definition img0 :: ndarray where
  "img0 = \<lparr>base = 0, lead = 0, hgt = 1, wid = 2, chan = 3, rev_ch = False\<rparr>"


lemma f32_quantum_bounds:
  assumes "\<bar>v\<bar> < 512"
  shows "0 < f32_quantum v" "f32_quantum v \<le> 1 / 2 ^ 15"
proof -
  define n where "n = \<lfloor>\<bar>v\<bar> * 2 ^ 149\<rfloor>"
  have "real_of_int n \<le> \<bar>v\<bar> * 2 ^ 149" unfolding n_def by simp
  also have "\<dots> < 512 * 2 ^ 149" using assms by simp
  also have "\<dots> = 2 ^ 158" by simp
  finally have "real_of_int n < 2 ^ 158" .
  then have "n < 2 ^ 158" by (simp add: of_int_less_numeral_power_cancel_iff)
  then have "bitlen n \<le> 158"
    by (simp add: bitlen_le_iff_power)
  then have e8: "f32_exponent v \<le> 8"
    unfolding f32_exponent_def n_def [symmetric] by simp
  then have q: "f32_quantum v = 1 / 2 ^ nat (23 - f32_exponent v)"
    by (simp add: f32_quantum_def Let_def)
  show "0 < f32_quantum v" unfolding q by simp
  have "(2::real) ^ 15 \<le> 2 ^ nat (23 - f32_exponent v)"
    using e8 by (intro power_increasing) simp_all
  then show "f32_quantum v \<le> 1 / 2 ^ 15"
    unfolding q by (simp add: field_simps)
qed

lemma round_half_even_error: "\<bar>of_int (round_half_even k) - k\<bar> \<le> 1 / 2"
proof -
  have "0 \<le> k - of_int \<lfloor>k\<rfloor>" "k - of_int \<lfloor>k\<rfloor> < 1"
    by linarith+
  then show ?thesis
    by (auto simp: round_half_even_def Let_def abs_le_iff)
qed

lemma float32_error:
  assumes "\<bar>v\<bar> < 512"
  shows "\<bar>float32 v - v\<bar> \<le> 1 / 65536"
proof (cases "v = 0")
  case True
  then show ?thesis by (simp add: float32_def)
next
  case False
  define q where "q = f32_quantum v"
  define r where "r = round_half_even (v / q)"
  have qpos: "0 < q" and q15: "q \<le> 1 / 2 ^ 15"
    unfolding q_def using f32_quantum_bounds [OF assms] by simp_all
  have val: "float32 v = of_int r * q"
    using False by (simp add: float32_def q_def r_def)
  have half: "\<bar>of_int r - v / q\<bar> \<le> 1 / 2"
    unfolding r_def by (rule round_half_even_error)
  have "float32 v - v = (of_int r - v / q) * q"
    using qpos by (simp add: val field_simps)
  then have "\<bar>float32 v - v\<bar> = \<bar>of_int r - v / q\<bar> * q"
    using qpos by (simp add: abs_mult)
  also have "\<dots> \<le> 1 / 2 * (1 / 2 ^ 15)"
    using half q15 qpos by (intro mult_mono) simp_all
  finally show ?thesis by simp
qed


lemma view_px_twice [simp]: "view_px r (view_px r px) = px"
  by (simp add: view_px_def)

lemma view_px_True: "view_px True px = rev px"
  by (simp add: view_px_def)

lemma preprocess_result:
  assumes "cells h (base img) = F32 pxs" "chan img = 3"
  shows "preprocess h img =
     (h\<lparr>next_addr := next_addr h + 1,
        cells := (cells h)(next_addr h :=
          F32 (map (\<lambda>px. rev (map2 (\<lambda>v m. float32 (v - m)) (rev (view_px (rev_ch img) px)) mean_pixel))
                 pxs))\<rparr>,
      Inr (img\<lparr>base := next_addr h, rev_ch := True, lead := lead img + 1\<rparr>))"
  using assms
  by (simp add: preprocess_def np_copy_def alloc_def contents_def reverse_channels_def
      inplace_mean_def Let_def view_px_def comp_def)

lemma postprocess_result:
  assumes "cells h (base img) = F32 pxs" "0 < lead img" "chan img = 3"
  shows "postprocess h img =
     (h\<lparr>next_addr := next_addr h + 3,
        cells := (cells h)
          (next_addr h :=
             F32 (map (\<lambda>px. map2 (\<lambda>v m. float32 (v + m)) (view_px (rev_ch img) px) mean_pixel) pxs),
           next_addr h + 1 :=
             F32 (map (\<lambda>px. map (\<lambda>v. min (max v 0) 255)
                         (map2 (\<lambda>v m. float32 (v + m)) (view_px (rev_ch img) px) mean_pixel)) pxs),
           next_addr h + 2 :=
             U8 (map (\<lambda>px. map (\<lambda>v. nat (trunc_int (min (max v 0) 255) mod 256))
                        (map2 (\<lambda>v m. float32 (v + m)) (view_px (rev_ch img) px) mean_pixel)) pxs))\<rparr>,
      Inr (img\<lparr>base := next_addr h + 2, rev_ch := True, lead := lead img - 1\<rparr>))"
  using assms
  by (simp add: postprocess_def np_copy_def alloc_def contents_def reverse_channels_def
      inplace_mean_def np_clip_def astype_uint8_def Let_def view_px_def comp_def)

lemma roundtrip_value_close:
  assumes "0 \<le> v" "v \<le> 255" "0 \<le> m" "m \<le> 256"
  shows "roundtrip_close (nat (trunc_int (min (max (float32 (float32 (v - m) + m)) 0) 255) mod 256)) v"
proof -
  define a where "a = float32 (v - m)"
  define b where "b = float32 (a + m)"
  define c where "c = min (max b 0) 255"
  have "\<bar>v - m\<bar> < 512" using assms by (simp add: abs_less_iff)
  then have ea: "\<bar>a - (v - m)\<bar> \<le> 1 / 65536"
    unfolding a_def by (rule float32_error)
  then have "\<bar>a + m\<bar> < 512" using assms by linarith
  then have eb: "\<bar>b - (a + m)\<bar> \<le> 1 / 65536"
    unfolding b_def by (rule float32_error)
  have bv: "\<bar>b - v\<bar> \<le> 1 / 32768"
    using ea eb by linarith
  have cv: "\<bar>c - v\<bar> \<le> 1 / 32768" and c0: "0 \<le> c" and c255: "c \<le> 255"
    using bv assms(1,2) by (auto simp: c_def abs_le_iff min_def max_def)
  have f0: "0 \<le> \<lfloor>c\<rfloor>" and f255: "\<lfloor>c\<rfloor> \<le> 255"
    using c0 c255 by (simp_all add: floor_le_iff le_floor_iff)
  have out: "nat (trunc_int c mod 256) = nat \<lfloor>c\<rfloor>"
    using c0 f0 f255 by (simp add: trunc_int_def)
  have rout: "real (nat \<lfloor>c\<rfloor>) = of_int \<lfloor>c\<rfloor>"
    using f0 by simp
  have fl: "of_int \<lfloor>c\<rfloor> \<le> c" "c < of_int \<lfloor>c\<rfloor> + 1"
    by linarith+
  have lo: "v - 1 - 1 / 32768 < of_int \<lfloor>c\<rfloor>" and hi: "of_int \<lfloor>c\<rfloor> \<le> v + 1 / 32768"
    using cv fl by linarith+
  have int_case: "of_int \<lfloor>c\<rfloor> = v \<or> of_int \<lfloor>c\<rfloor> = v - 1" if vz: "of_int \<lfloor>v\<rfloor> = v"
  proof -
    define z where "z = \<lfloor>v\<rfloor>"
    have z: "v = of_int z" unfolding z_def by (rule vz [symmetric])
    have "of_int z - 1 - 1 / 32768 < (of_int \<lfloor>c\<rfloor> :: real)" "(of_int \<lfloor>c\<rfloor> :: real) \<le> of_int z + 1 / 32768"
      using lo hi z by simp_all
    then have "z - 2 < \<lfloor>c\<rfloor>" "\<lfloor>c\<rfloor> < z + 1"
      by linarith+
    then have "\<lfloor>c\<rfloor> = z \<or> \<lfloor>c\<rfloor> = z - 1" by linarith
    then show ?thesis using z by auto
  qed
  show ?thesis
    unfolding roundtrip_close_def a_def [symmetric] b_def [symmetric] c_def [symmetric] out rout
    using lo hi int_case by blast
qed

lemma roundtrip_pixel_close:
  assumes "length p = 3" "\<forall>v\<in>set p. 0 \<le> v \<and> v \<le> 255"
  shows "list_all2 roundtrip_close
           (rev (map (\<lambda>v. nat (trunc_int (min (max v 0) 255) mod 256))
                  (map2 (\<lambda>v m. float32 (v + m))
                     (map2 (\<lambda>v m. float32 (v - m)) (rev p) mean_pixel) mean_pixel)))
           p"
proof -
  obtain a b c where p: "p = [a, b, c]"
    using assms(1) by (auto simp: numeral_3_eq_3 length_Suc_conv)
  have r: "0 \<le> a" "a \<le> 255" "0 \<le> b" "b \<le> 255" "0 \<le> c" "c \<le> 255"
    using assms(2) p by simp_all
  show ?thesis
    unfolding p mean_pixel_def
    using roundtrip_value_close [OF r(1,2), of "103939 / 1000"]
      roundtrip_value_close [OF r(3,4), of "116779 / 1000"]
      roundtrip_value_close [OF r(5,6), of "12368 / 100"]
    by simp
qed

text \<open>
  Claim C8, as amended. For an image of three channels whose values all lie in
  \<open>[0, 255]\<close>, \<open>preprocess\<close> and then \<open>postprocess\<close> succeed. The preprocessed image shows
  every pixel reversed, with the mean subtracted and the difference rounded to float32.
  The postprocessed image shows every pixel in its original channel order (the second
  reversal undoes the first), and each value \<open>v\<close> comes back within the tolerance
  \<open>roundtrip_close\<close>: between \<open>v - 1\<close> and \<open>v\<close> up to \<open>1 / 32768\<close>, and \<open>v\<close> or \<open>v - 1\<close> when
  \<open>v\<close> is an integer. The mean is added back only up to float32 rounding, and the conversion to
  \<^verbatim>\<open>uint8\<close> truncates.
\<close>

theorem preprocess_postprocess_roundtrip:
  assumes "contents h img = F32 pxs" "chan img = 3"
    and "\<forall>px\<in>set pxs. length px = 3 \<and> (\<forall>v\<in>set px. 0 \<le> v \<and> v \<le> 255)"
  shows "\<exists>h1 pre out.
           preprocess h img = (h1, Inr pre) \<and>
           contents h1 pre =
             F32 (map (\<lambda>px. map2 (\<lambda>v m. float32 (v - m)) (rev px) mean_pixel) pxs) \<and>
           roundtrip h img = Inr (U8 out) \<and>
           list_all2 (list_all2 roundtrip_close) out pxs"
proof -
  obtain raw where raw: "cells h (base img) = F32 raw" "pxs = map (view_px (rev_ch img)) raw"
    using assms(1) by (auto simp: contents_def split: buffer.splits)
  let ?B = "map (\<lambda>px. rev (map2 (\<lambda>v m. float32 (v - m)) (rev (view_px (rev_ch img) px)) mean_pixel)) raw"
  let ?h1 = "h\<lparr>next_addr := next_addr h + 1, cells := (cells h)(next_addr h := F32 ?B)\<rparr>"
  let ?pre = "img\<lparr>base := next_addr h, rev_ch := True, lead := lead img + 1\<rparr>"
  let ?g = "\<lambda>v. nat (trunc_int (min (max v 0) 255) mod 256)"
  let ?P = "\<lambda>p. rev (map ?g (map2 (\<lambda>v m. float32 (v + m))
                               (map2 (\<lambda>v m. float32 (v - m)) (rev p) mean_pixel) mean_pixel))"
  have pre: "preprocess h img = (?h1, Inr ?pre)"
    by (rule preprocess_result [OF raw(1) assms(2)])
  have c1: "contents ?h1 ?pre = F32 (map (\<lambda>px. map2 (\<lambda>v m. float32 (v - m)) (rev px) mean_pixel) pxs)"
    by (simp add: contents_def raw(2) view_px_True comp_def)
  have cell: "cells ?h1 (base ?pre) = F32 ?B" by simp
  have post: "postprocess ?h1 ?pre =
     (?h1\<lparr>next_addr := next_addr ?h1 + 3,
        cells := (cells ?h1)
          (next_addr ?h1 :=
             F32 (map (\<lambda>px. map2 (\<lambda>v m. float32 (v + m)) (view_px (rev_ch ?pre) px) mean_pixel) ?B),
           next_addr ?h1 + 1 :=
             F32 (map (\<lambda>px. map (\<lambda>v. min (max v 0) 255)
                         (map2 (\<lambda>v m. float32 (v + m)) (view_px (rev_ch ?pre) px) mean_pixel)) ?B),
           next_addr ?h1 + 2 :=
             U8 (map (\<lambda>px. map ?g
                        (map2 (\<lambda>v m. float32 (v + m)) (view_px (rev_ch ?pre) px) mean_pixel)) ?B))\<rparr>,
      Inr (?pre\<lparr>base := next_addr ?h1 + 2, rev_ch := True, lead := lead ?pre - 1\<rparr>))"
    by (rule postprocess_result [OF cell]) (simp_all add: assms(2))
  have rt: "roundtrip h img = Inr (U8 (map ?P pxs))"
    by (simp only: roundtrip_def pre post prod.case sum.case)
       (simp add: contents_def view_px_True comp_def raw(2))
  have "list_all2 (list_all2 roundtrip_close) (map ?P pxs) pxs"
    unfolding list_all2_map1 list_all2_same
    using assms(3) roundtrip_pixel_close by blast
  then show ?thesis
    using pre c1 rt by blast
qed

theorem preprocess_postprocess_roundtrip_witness:
  "contents heap0 img0 = F32 [[0, 128, 255], [10, 20.5, 30]] \<and> chan img0 = 3 \<and>
   (\<exists>out. roundtrip heap0 img0 = Inr (U8 out) \<and>
          list_all2 (list_all2 roundtrip_close) out [[0, 128, 255], [10, 20.5, 30]])"
proof -
  have c: "contents heap0 img0 = F32 [[0, 128, 255], [10, 20.5, 30]]"
    by (simp add: contents_def heap0_def img0_def view_px_def)
  have s: "chan img0 = 3"
    by (simp add: img0_def)
  have r: "\<forall>px\<in>set [[0, 128, 255], [10, 20.5, 30 :: real]].
             length px = 3 \<and> (\<forall>v\<in>set px. 0 \<le> v \<and> v \<le> 255)"
    by simp
  show ?thesis
    using preprocess_postprocess_roundtrip [OF c s r] c s by blast
qed

text \<open>
  Claim C8, as stated, fails: the mean subtraction is not exactly undone. For the value
  10 in the blue channel the store holds \<open>10485757 / 1048576\<close>, just below 10, after the
  mean is added back, and the round trip returns 9.
\<close>

theorem roundtrip_returns_9_for_10:
  "cells heap0 (base img0) = F32 [[0, 128, 255], [10, 20.5, 30]] \<and>
   roundtrip heap0 img0 = Inr (U8 [[0, 128, 255], [9, 20, 30]])"
  by code_simp

lemma preprocess_frame:
  assumes "addr < next_addr h"
  shows "cells (fst (preprocess h img)) addr = cells h addr"
  using assms
  by (auto simp: preprocess_def np_copy_def alloc_def reverse_channels_def inplace_mean_def
      Let_def split: buffer.splits)

lemma postprocess_frame:
  assumes "addr < next_addr h"
  shows "cells (fst (postprocess h img)) addr = cells h addr"
  using assms
  by (auto simp: postprocess_def np_copy_def alloc_def reverse_channels_def inplace_mean_def
      np_clip_def astype_uint8_def Let_def split: buffer.splits)

text \<open>
  Claim C10. \<open>preprocess\<close> and \<open>postprocess\<close> leave their argument unchanged: every
  buffer that exists before the call, the argument's among them, holds the same values
  after it, and the argument shows the same contents, whether the call succeeds or
  raises. The witness also shows that a buffer is written: the one of the copy.
\<close>

theorem preprocess_postprocess_keep_argument:
  assumes "base img < next_addr h" "addr < next_addr h"
  shows "cells (fst (preprocess h img)) addr = cells h addr \<and>
         contents (fst (preprocess h img)) img = contents h img \<and>
         cells (fst (postprocess h img)) addr = cells h addr \<and>
         contents (fst (postprocess h img)) img = contents h img"
  using preprocess_frame [OF assms(2)] preprocess_frame [OF assms(1)]
    postprocess_frame [OF assms(2)] postprocess_frame [OF assms(1)]
  by (simp add: contents_def)

theorem preprocess_postprocess_keep_argument_witness:
  "base img0 < next_addr heap0 \<and>
   contents (fst (preprocess heap0 img0)) img0 = F32 [[0, 128, 255], [10, 20.5, 30]] \<and>
   contents (fst (postprocess heap0 (img0\<lparr>lead := 1\<rparr>))) (img0\<lparr>lead := 1\<rparr>) =
     F32 [[0, 128, 255], [10, 20.5, 30]] \<and>
   cells (fst (preprocess heap0 img0)) 1 \<noteq> cells heap0 1"
proof -
  have b: "base img0 < next_addr heap0" "base (img0\<lparr>lead := 1\<rparr>) < next_addr heap0"
    by (simp_all add: img0_def heap0_def)
  have c: "contents heap0 img0 = F32 [[0, 128, 255], [10, 20.5, 30]]"
    "contents heap0 (img0\<lparr>lead := 1\<rparr>) = F32 [[0, 128, 255], [10, 20.5, 30]]"
    by (simp_all add: contents_def heap0_def img0_def view_px_def)
  have w: "cells (fst (preprocess heap0 img0)) 1 \<noteq> cells heap0 1"
    by code_simp
  show ?thesis
    using preprocess_postprocess_keep_argument [OF b(1) b(1)]
      preprocess_postprocess_keep_argument [OF b(2) b(2)] b c w
    by simp
qed

end
